theory Spec2Isabelle
  imports Complex_Main "HOL-Library.Word" "HOL-Library.Multiset"
begin

section \<open>Avoidance by lane change: the scene module\<close>

text \<open>
  A shallow embedding of \<^verbatim>\<open>AvoidanceByLCModule\<close>
  (\<^verbatim>\<open>behavior_path_planner/src/scene_module/avoidance_by_lc/module.cpp\<close>).
  The member variables of the module are the fields of the record \<open>Module\<close>; a member
  function takes the module and returns its result together with the module it leaves.
  A \<^verbatim>\<open>double\<close> is a real number (no NaN, no rounding), a \<^verbatim>\<open>size_t\<close> count is a
  natural number. A \<^verbatim>\<open>front()\<close> on an empty vector, an \<^verbatim>\<open>at()\<close> out of range and the
  dereference of a null pointer are values of the type \<open>fault\<close>.
  The functions of other translation units (\<^verbatim>\<open>util::\<close>, \<^verbatim>\<open>motion_utils::\<close>,
  \<^verbatim>\<open>lanelet::utils::\<close>, the route handler, the planner data) are the fields of the
  record \<open>World\<close>: what they return in the cycle at hand. The parameters, the two member
  constants and the preprocessor switch \<^verbatim>\<open>USE_OLD_ARCHITECTURE\<close> are the fields of
  the record \<open>Config\<close>.
\<close>

subsection \<open>Messages and geometry\<close>

type_synonym Position = "real \<times> real \<times> real"
type_synonym Quaternion = "real \<times> real \<times> real \<times> real"
type_synonym Vector3 = "real \<times> real \<times> real"
type_synonym Header = nat
type_synonym Polygon2d = "(real \<times> real) list"

record Pose =
  position :: Position
  orientation :: Quaternion

type_synonym ConstLanelet = nat
type_synonym ConstLanelets = "ConstLanelet list"

record PathPointWithLaneId =
  pose :: Pose
  lane_ids :: "nat list"

record PathWithLaneId =
  header :: Header
  points :: "PathPointWithLaneId list"

record DrivableLanes =
  right_lane :: ConstLanelet
  left_lane :: ConstLanelet
  middle_lanes :: ConstLanelets

record ArcCoordinates =
  arc_length :: real
  arc_distance :: real

datatype TurnIndicatorsCommand = NO_COMMAND | DISABLE | ENABLE_LEFT | ENABLE_RIGHT

record TurnSignalInfo =
  turn_signal_command :: TurnIndicatorsCommand
  desired_start_point :: Pose
  desired_end_point :: Pose
  required_start_point :: Pose
  required_end_point :: Pose

datatype Direction = NONE | LEFT | RIGHT

subsection \<open>Lane change data\<close>

record ShiftLine =
  shift_start :: Pose
  shift_end :: Pose

record ShiftedPath =
  shifted_points :: PathWithLaneId
  shift_length :: "real list"

record LaneChangePhaseInfo =
  prepare :: real
  lane_changing :: real

record LaneChangePath =
  path :: PathWithLaneId
  shifted_path :: ShiftedPath
  shift_line :: ShiftLine
  acceleration :: real
  phase_length :: LaneChangePhaseInfo
  reference_lanelets :: ConstLanelets
  target_lanelets :: ConstLanelets

type_synonym LaneChangePaths = "LaneChangePath list"

record LaneChangeStatus =
  lane_follow_path :: PathWithLaneId
  lane_change_path :: LaneChangePath
  current_lanes :: ConstLanelets
  lane_change_lanes :: ConstLanelets
  lane_follow_lane_ids :: "nat list"
  lane_change_lane_ids :: "nat list"
  is_safe :: bool
  is_valid_path :: bool
  start_distance :: real

datatype LaneChangeStates = Normal | Cancel | Abort | Stop

datatype ModuleStatus = IDLE | RUNNING | SUCCESS | FAILURE

subsection \<open>Avoidance data\<close>

record PredictedObject =
  object_id :: nat
  initial_pose :: Pose

record ObjectData =
  object :: PredictedObject
  envelope_poly :: Polygon2d
  centroid :: "real \<times> real"
  longitudinal :: real
  lateral :: real
  object_length :: real
  move_time :: real
  overhang_dist :: real
  overhang_pose :: Pose
  avoid_required :: bool
  reason :: string

type_synonym ObjectDataArray = "ObjectData list"

record AvoidancePlanningData =
  reference_pose :: Pose
  reference_path :: PathWithLaneId
  ego_closest_path_index :: "64 word"
  arclength_from_ego :: "real list"
  current_lanelets :: ConstLanelets
  target_objects :: ObjectDataArray
  other_objects :: ObjectDataArray

subsection \<open>Outputs\<close>

record BehaviorModuleOutput =
  out_path :: "PathWithLaneId option"
  out_reference_path :: "PathWithLaneId option"
  out_turn_signal_info :: TurnSignalInfo

record CandidateOutput =
  path_candidate :: PathWithLaneId
  lateral_shift :: real
  start_distance_to_path_change :: real
  finish_distance_to_path_change :: real

datatype SteeringDirection = SF_LEFT | SF_RIGHT | SF_UNKNOWN

datatype SteeringStatus = APPROACHING | TURNING

text \<open>
  The calls the module makes to the approval (RTC) interface and to the steering factor
  interface, in the order it makes them. Both interfaces belong to the base class and to
  other packages; the module's state records which calls were made, with their arguments.
\<close>

datatype InterfaceCall =
    RemoveRTCStatus
  | RemovePreviousRTCStatusLeft
  | RemovePreviousRTCStatusRight
  | UpdateRTCStatus CandidateOutput
  | WaitApprovalLeft real real
  | WaitApprovalRight real real
  | UpdateSteeringFactor "Pose \<times> Pose" "real \<times> real" SteeringDirection SteeringStatus

datatype fault =
    FrontOfEmptyVector
  | AtOutOfRange
  | NullPointer

subsection \<open>Configuration\<close>

record Config =
  USE_OLD_ARCHITECTURE :: bool
  execute_object_num :: nat
  execute_object_longitudinal_margin :: real
  execute_only_when_lane_change_finish_before_object :: bool
  resample_interval_for_planning :: real
  detection_area_left_expand_dist :: real
  detection_area_right_expand_dist :: real
  lateral_passable_safety_buffer :: real
  prepare_duration :: real
  lane_change_finish_judge_buffer :: real
  drivable_area_left_bound_offset :: real
  drivable_area_right_bound_offset :: real
  drivable_area_types_to_skip :: "string list"
  enable_cancel_lane_change :: bool
  enable_abort_lane_change :: bool
  publish_debug_marker :: bool
  minimum_lane_changing_length :: real
  vehicle_width :: real
  vehicle_length :: real
  backward_path_length :: real
  forward_path_length :: real
  lane_change_lane_length :: real
  check_distance :: real

subsection \<open>The other translation units\<close>

text \<open>
  What the functions outside \<^verbatim>\<open>module.cpp\<close> return, grouped by where they live.
  Arguments that are the planner data, the route handler or a parameter structure are left
  out: they are the same during a cycle. A function that writes through a reference
  argument returns the written value.
\<close>

record PlannerData =
  ego_pose :: Pose
  ego_twist_linear :: Vector3
  dynamic_object :: "PredictedObject list"
  previous_path :: PathWithLaneId
  previous_reference_path :: PathWithLaneId
  previous_turn_signal_info :: TurnSignalInfo
  isActivated :: bool
  generateUUID :: nat

record RouteHandler =
  getRouteHeader :: Header
  getLaneletSequence :: "ConstLanelet \<Rightarrow> Pose \<Rightarrow> real \<Rightarrow> real \<Rightarrow> ConstLanelets"
  routing_left :: "ConstLanelet \<Rightarrow> ConstLanelet option"
  routing_right :: "ConstLanelet \<Rightarrow> ConstLanelet option"
  getNumLaneToPreferredLane :: "ConstLanelet \<Rightarrow> int"

record LaneletUtil =
  getCurrentLanes :: ConstLanelets
  getCurrentLanesFromPath :: "PathWithLaneId \<Rightarrow> ConstLanelets"
  getClosestLanelet :: "ConstLanelets \<Rightarrow> Pose \<Rightarrow> ConstLanelet option"
  getExpandedLanelets :: "ConstLanelets \<Rightarrow> real \<Rightarrow> real \<Rightarrow> ConstLanelets"
  extendLanes :: "ConstLanelets \<Rightarrow> ConstLanelets"
  generateDrivableLanes :: "ConstLanelets \<Rightarrow> DrivableLanes list"
  expandLanelets ::
    "DrivableLanes list \<Rightarrow> real \<Rightarrow> real \<Rightarrow> string list \<Rightarrow> DrivableLanes list"
  transformToLanelets :: "DrivableLanes list \<Rightarrow> ConstLanelets"
  isInLanelet :: "Pose \<Rightarrow> ConstLanelet \<Rightarrow> bool"
  getDistanceToEndOfLane :: "Pose \<Rightarrow> ConstLanelets \<Rightarrow> real"
  getArcCoordinates :: "ConstLanelets \<Rightarrow> Pose \<Rightarrow> ArcCoordinates"
  getIds :: "ConstLanelets \<Rightarrow> nat list"

record PathUtil =
  calcSignedArcLength :: "PathPointWithLaneId list \<Rightarrow> Position \<Rightarrow> Position \<Rightarrow> real"
  calcSignedArcLength_to_index :: "PathPointWithLaneId list \<Rightarrow> Position \<Rightarrow> nat \<Rightarrow> real"
  findNearestSegmentIndex :: "PathPointWithLaneId list \<Rightarrow> Position \<Rightarrow> 64 word"
  findNearestIndex :: "PathPointWithLaneId list \<Rightarrow> Position \<Rightarrow> 64 word"
  calcPathArcLengthArray :: "PathWithLaneId \<Rightarrow> nat \<Rightarrow> nat \<Rightarrow> real \<Rightarrow> real list"
  resamplePathWithSpline :: "PathWithLaneId \<Rightarrow> real \<Rightarrow> PathWithLaneId"
  checkPathRelativeAngle :: "PathWithLaneId \<Rightarrow> real \<Rightarrow> bool"
  l2Norm :: "Vector3 \<Rightarrow> real"
  insertStopPoint :: "real \<Rightarrow> PathWithLaneId \<Rightarrow> PathWithLaneId"
  cutOverlappedLanes ::
    "PathWithLaneId \<Rightarrow> DrivableLanes list \<Rightarrow> DrivableLanes list \<times> PathWithLaneId"
  generateDrivableArea :: "PathWithLaneId \<Rightarrow> DrivableLanes list \<Rightarrow> real \<Rightarrow> PathWithLaneId"
  getCenterLinePathFromRootLanelet :: "ConstLanelet \<Rightarrow> PathWithLaneId"
  getCenterLinePath ::
    "ConstLanelets \<Rightarrow> Pose \<Rightarrow> real \<Rightarrow> real \<Rightarrow> real option \<Rightarrow> PathWithLaneId"
  setDecelerationVelocity ::
    "PathWithLaneId \<Rightarrow> ConstLanelets \<Rightarrow> real \<Rightarrow> real \<Rightarrow> PathWithLaneId"
  getPathTurnSignal ::
    "ConstLanelets \<Rightarrow> ShiftedPath \<Rightarrow> ShiftLine \<Rightarrow> Pose \<Rightarrow> real
      \<Rightarrow> TurnIndicatorsCommand \<times> real"

record LaneChangeUtil =
  getLaneChangePaths_old ::
    "ConstLanelets \<Rightarrow> ConstLanelets \<Rightarrow> real \<Rightarrow> bool \<times> LaneChangePaths"
  getLaneChangePaths ::
    "PathWithLaneId \<Rightarrow> ConstLanelets \<Rightarrow> ConstLanelets \<Rightarrow> real \<Rightarrow> Direction
      \<Rightarrow> bool \<times> LaneChangePaths"
  generateDrivableLanes_lane_change ::
    "ConstLanelets \<Rightarrow> ConstLanelets \<Rightarrow> DrivableLanes list"
  isEgoWithinOriginalLane :: "ConstLanelets \<Rightarrow> Pose \<Rightarrow> bool"
  getAbortPaths :: "LaneChangePath \<Rightarrow> Pose \<Rightarrow> LaneChangePath option"
  getExtendedTargetLanesForCollisionCheck :: "ConstLanelet \<Rightarrow> Pose \<Rightarrow> real \<Rightarrow> ConstLanelets"
  calcLateralBufferForFiltering :: "real \<Rightarrow> real"
  filterObjectIndices ::
    "LaneChangePaths \<Rightarrow> ConstLanelets \<Rightarrow> Pose \<Rightarrow> real \<Rightarrow> real \<Rightarrow> nat list"
  isLaneChangePathSafe ::
    "LaneChangePath \<Rightarrow> nat list \<Rightarrow> Pose \<Rightarrow> Vector3 \<Rightarrow> real \<Rightarrow> bool \<times> Pose"
  get_turn_signal_info :: "LaneChangePath \<Rightarrow> TurnSignalInfo \<Rightarrow> TurnSignalInfo"
  getLateralShift :: "LaneChangePath \<Rightarrow> real"
  calcTotalLaneChangeLength :: real
  calcLaneChangeBuffer :: "int \<Rightarrow> real \<Rightarrow> real"

record AvoidanceUtil =
  isOnRight :: "ObjectData \<Rightarrow> bool"
  insertDecelPoint :: "Position \<Rightarrow> real \<Rightarrow> real \<Rightarrow> PathWithLaneId \<Rightarrow> PathWithLaneId"
  separateObjectsByLanelets ::
    "PredictedObject list \<Rightarrow> ConstLanelets \<Rightarrow> PredictedObject list \<times> PredictedObject list"
  fillObjectEnvelopePolygon :: "ObjectData \<Rightarrow> ObjectDataArray \<Rightarrow> Pose \<Rightarrow> ObjectData"
  return_centroid :: "Polygon2d \<Rightarrow> real \<times> real"
  fillLongitudinalAndLengthByClosestEnvelopeFootprint ::
    "PathWithLaneId \<Rightarrow> Position \<Rightarrow> ObjectData \<Rightarrow> ObjectData"
  fillObjectMovingTime :: "ObjectData \<Rightarrow> ObjectDataArray \<Rightarrow> ObjectData \<times> ObjectDataArray"
  calcLateralDeviation :: "Pose \<Rightarrow> Position \<Rightarrow> real"
  calcEnvelopeOverhangDistance :: "ObjectData \<Rightarrow> Pose \<Rightarrow> real \<times> Position"
  filterTargetObjects ::
    "ObjectDataArray \<Rightarrow> AvoidancePlanningData \<Rightarrow> AvoidancePlanningData"
  updateRegisteredObject :: "ObjectDataArray \<Rightarrow> ObjectDataArray \<Rightarrow> ObjectDataArray"
  compensateDetectionLost ::
    "ObjectDataArray \<Rightarrow> ObjectDataArray \<Rightarrow> ObjectDataArray
      \<Rightarrow> ObjectDataArray \<times> ObjectDataArray"

record World =
  planner_data :: PlannerData
  route_handler :: RouteHandler
  lanelet_util :: LaneletUtil
  path_util :: PathUtil
  lane_change_util :: LaneChangeUtil
  avoidance_util :: AvoidanceUtil

definition getEgoPose :: "World \<Rightarrow> Pose" where
  "getEgoPose w = ego_pose (planner_data w)"

definition getEgoPosition :: "World \<Rightarrow> Position" where
  "getEgoPosition w = position (ego_pose (planner_data w))"

definition getEgoTwist :: "World \<Rightarrow> Vector3" where
  "getEgoTwist w = ego_twist_linear (planner_data w)"

subsection \<open>The module\<close>

record Module =
  current_state :: ModuleStatus
  current_lane_change_state :: LaneChangeStates
  is_waiting_approval :: bool
  is_activated :: bool
  is_abort_condition_satisfied :: bool
  is_abort_path_approved :: bool
  is_abort_approval_requested :: bool
  abort_path :: "LaneChangePath option"
  status :: LaneChangeStatus
  avoidance_data :: AvoidancePlanningData
  registered_objects :: ObjectDataArray
  stopped_objects :: ObjectDataArray
  debug_valid_path :: LaneChangePaths
  prev_approved_path :: PathWithLaneId
  path_candidate_ptr :: "PathWithLaneId option"
  path_reference_ptr :: "PathWithLaneId option"
  uuid_map :: "string \<rightharpoonup> nat"
  interface_calls :: "InterfaceCall list"

text \<open>Default-constructed values (\<^verbatim>\<open>LaneChangePath selected_path;\<close> and the like).\<close>

definition default_Pose :: Pose where
  "default_Pose = \<lparr>position = (0, 0, 0), orientation = (0, 0, 0, 1)\<rparr>"

definition default_PathWithLaneId :: PathWithLaneId where
  "default_PathWithLaneId = \<lparr>header = 0, points = []\<rparr>"

definition default_LaneChangePath :: LaneChangePath where
  "default_LaneChangePath =
     \<lparr>path = default_PathWithLaneId,
      shifted_path = \<lparr>shifted_points = default_PathWithLaneId, shift_length = []\<rparr>,
      shift_line = \<lparr>shift_start = default_Pose, shift_end = default_Pose\<rparr>,
      acceleration = 0,
      phase_length = \<lparr>prepare = 0, lane_changing = 0\<rparr>,
      reference_lanelets = [],
      target_lanelets = []\<rparr>"

definition default_ConstLanelet :: ConstLanelet where
  "default_ConstLanelet = 0"

definition default_TurnSignalInfo :: TurnSignalInfo where
  "default_TurnSignalInfo =
     \<lparr>turn_signal_command = NO_COMMAND,
      desired_start_point = default_Pose, desired_end_point = default_Pose,
      required_start_point = default_Pose, required_end_point = default_Pose\<rparr>"

definition default_BehaviorModuleOutput :: BehaviorModuleOutput where
  "default_BehaviorModuleOutput =
     \<lparr>out_path = None, out_reference_path = None,
      out_turn_signal_info = default_TurnSignalInfo\<rparr>"

definition default_CandidateOutput :: CandidateOutput where
  "default_CandidateOutput =
     \<lparr>path_candidate = default_PathWithLaneId, lateral_shift = 0,
      start_distance_to_path_change = 0, finish_distance_to_path_change = 0\<rparr>"

definition default_ObjectData :: ObjectData where
  "default_ObjectData =
     \<lparr>object = \<lparr>object_id = 0, initial_pose = default_Pose\<rparr>,
      envelope_poly = [], centroid = (0, 0), longitudinal = 0, lateral = 0,
      object_length = 0, move_time = 0, overhang_dist = 0, overhang_pose = default_Pose,
      avoid_required = False, reason = []\<rparr>"

text \<open>
  Modelled from the spec: the base class \<^verbatim>\<open>SceneModuleInterface\<close> is not among the
  sources. Its \<^verbatim>\<open>waitApproval\<close>, \<^verbatim>\<open>clearWaitingApproval\<close> and
  \<^verbatim>\<open>isWaitingApproval\<close> set, clear and read the pending-approval flag;
  \<^verbatim>\<open>resetPathCandidate\<close> and \<^verbatim>\<open>resetPathReference\<close> reset the two published
  pointers; the calls that reach the approval interface or the steering factor interface
  are appended to \<open>interface_calls\<close>.
\<close>

definition waitApproval :: "Module \<Rightarrow> Module" where
  "waitApproval m = m\<lparr>is_waiting_approval := True\<rparr>"

definition clearWaitingApproval :: "Module \<Rightarrow> Module" where
  "clearWaitingApproval m = m\<lparr>is_waiting_approval := False\<rparr>"

definition isWaitingApproval :: "Module \<Rightarrow> bool" where
  "isWaitingApproval m = is_waiting_approval m"

definition resetPathCandidate :: "Module \<Rightarrow> Module" where
  "resetPathCandidate m = m\<lparr>path_candidate_ptr := None\<rparr>"

definition resetPathReference :: "Module \<Rightarrow> Module" where
  "resetPathReference m = m\<lparr>path_reference_ptr := None\<rparr>"

definition interface_call :: "InterfaceCall \<Rightarrow> Module \<Rightarrow> Module" where
  "interface_call e m = m\<lparr>interface_calls := interface_calls m @ [e]\<rparr>"

definition removeRTCStatus :: "Module \<Rightarrow> Module" where
  "removeRTCStatus m = interface_call RemoveRTCStatus m"

definition removePreviousRTCStatusLeft :: "Module \<Rightarrow> Module" where
  "removePreviousRTCStatusLeft m = interface_call RemovePreviousRTCStatusLeft m"

definition removePreviousRTCStatusRight :: "Module \<Rightarrow> Module" where
  "removePreviousRTCStatusRight m = interface_call RemovePreviousRTCStatusRight m"

definition updateRTCStatus :: "CandidateOutput \<Rightarrow> Module \<Rightarrow> Module" where
  "updateRTCStatus candidate m = interface_call (UpdateRTCStatus candidate) m"

definition waitApprovalLeft :: "real \<Rightarrow> real \<Rightarrow> Module \<Rightarrow> Module" where
  "waitApprovalLeft start_distance_arg finish_distance_arg m =
     waitApproval (interface_call (WaitApprovalLeft start_distance_arg finish_distance_arg) m)"

definition waitApprovalRight :: "real \<Rightarrow> real \<Rightarrow> Module \<Rightarrow> Module" where
  "waitApprovalRight start_distance_arg finish_distance_arg m =
     waitApproval (interface_call (WaitApprovalRight start_distance_arg finish_distance_arg) m)"

text \<open>
  The current lanes: \<^verbatim>\<open>util::getCurrentLanes(planner_data_)\<close> under
  \<^verbatim>\<open>USE_OLD_ARCHITECTURE\<close>, else
  \<^verbatim>\<open>util::getCurrentLanesFromPath(*getPreviousModuleOutput().reference_path, planner_data_)\<close>.
\<close>

definition current_lanes_of :: "Config \<Rightarrow> World \<Rightarrow> ConstLanelets" where
  "current_lanes_of c w =
     (if USE_OLD_ARCHITECTURE c then getCurrentLanes (lanelet_util w)
      else getCurrentLanesFromPath (lanelet_util w) (previous_reference_path (planner_data w)))"

subsection \<open>Lane resolution and candidate selection\<close>

text \<open>
  The two loops of \<^verbatim>\<open>getLaneChangeLanes\<close>: the first lanelet of the sequence that has a
  neighbour on the wanted side decides, and the loop breaks there.
\<close>

fun first_adjacent ::
  "(ConstLanelet \<Rightarrow> ConstLanelet option) \<Rightarrow> ConstLanelets \<Rightarrow> ConstLanelet option" where
  "first_adjacent adj [] = None"
| "first_adjacent adj (l # ls) =
     (case adj l of Some a \<Rightarrow> Some a | None \<Rightarrow> first_adjacent adj ls)"

definition getLaneChangeLanes ::
  "Config \<Rightarrow> World \<Rightarrow> Module \<Rightarrow> ConstLanelets \<Rightarrow> real \<Rightarrow> fault + ConstLanelets" where
  "getLaneChangeLanes c w m current_lanes_arg lane_change_lane_length_arg =
     (let objs = target_objects (avoidance_data m) in
      if current_lanes_arg = [] then Inr []
      else if length objs < execute_object_num c then Inr []
      else if objs = [] then Inl FrontOfEmptyVector
      else
        let o_front = hd objs;
            current_lane =
              (case getClosestLanelet (lanelet_util w) current_lanes_arg (getEgoPose w) of
                 Some l \<Rightarrow> l | None \<Rightarrow> default_ConstLanelet);
            lane_change_prepare_length =
              max (fst (getEgoTwist w) * prepare_duration c) (minimum_lane_changing_length c);
            current_check_lanes =
              getLaneletSequence (route_handler w) current_lane (getEgoPose w) 0
                lane_change_prepare_length
        in Inr (case first_adjacent
                       (if isOnRight (avoidance_util w) o_front
                        then routing_left (route_handler w)
                        else routing_right (route_handler w))
                       current_check_lanes of
                  Some adjacent_lane \<Rightarrow>
                    getLaneletSequence (route_handler w) adjacent_lane (getEgoPose w)
                      lane_change_lane_length_arg lane_change_lane_length_arg
                | None \<Rightarrow> []))"

text \<open>
  \<^verbatim>\<open>getSafePath\<close> returns the pair (found valid path, found safe path), the value it
  leaves in the reference argument \<^verbatim>\<open>safe_path\<close>, and the module: the member
  \<^verbatim>\<open>debug_valid_path_\<close> is mutable and keeps the generated candidates. The debug markers
  are not part of the model.
\<close>

definition getSafePath ::
  "Config \<Rightarrow> World \<Rightarrow> Module \<Rightarrow> ConstLanelets \<Rightarrow> real \<Rightarrow> LaneChangePath
    \<Rightarrow> (bool \<times> bool) \<times> LaneChangePath \<times> Module" where
  "getSafePath c w m lane_change_lanes_arg check_distance_arg safe_path =
     (let current_lanes_now = current_lanes_of c w in
      if lane_change_lanes_arg = [] then ((False, False), safe_path, m)
      else if target_objects (avoidance_data m) = [] then ((False, False), safe_path, m)
      else
        let (found_safe_path, valid_paths) =
              (if USE_OLD_ARCHITECTURE c
               then getLaneChangePaths_old (lane_change_util w) current_lanes_now
                      lane_change_lanes_arg check_distance_arg
               else
                 let o_front = hd (target_objects (avoidance_data m));
                     direction =
                       (if isOnRight (avoidance_util w) o_front then LEFT else RIGHT)
                 in getLaneChangePaths (lane_change_util w) (previous_path (planner_data w))
                      current_lanes_now lane_change_lanes_arg check_distance_arg direction);
            m1 = m\<lparr>debug_valid_path := valid_paths\<rparr>
        in if valid_paths = [] then ((False, False), safe_path, m1)
           else if found_safe_path then ((True, found_safe_path), last valid_paths, m1)
           else ((True, found_safe_path), hd valid_paths, m1))"

definition isExecutionRequested :: "Config \<Rightarrow> World \<Rightarrow> Module \<Rightarrow> fault + (bool \<times> Module)" where
  "isExecutionRequested c w m =
     (if current_state m = RUNNING then Inr (True, m)
      else
        case getLaneChangeLanes c w m (current_lanes_of c w) (lane_change_lane_length c) of
          Inl e \<Rightarrow> Inl e
        | Inr lanes \<Rightarrow>
            (case getSafePath c w m lanes (check_distance c) default_LaneChangePath of
               ((found_valid_path, found_safe_path), selected_path, m1) \<Rightarrow>
                 if \<not> found_valid_path then Inr (False, m1)
                 else if execute_object_num c > length (target_objects (avoidance_data m1))
                 then Inr (False, m1)
                 else if target_objects (avoidance_data m1) = [] then Inl FrontOfEmptyVector
                 else
                   let to_front_object_distance =
                         longitudinal (hd (target_objects (avoidance_data m1)))
                   in if execute_object_longitudinal_margin c > to_front_object_distance
                      then Inr (False, m1)
                      else
                        let to_lane_change_end_distance =
                              calcSignedArcLength (path_util w) (points (path selected_path))
                                (position (getEgoPose w))
                                (position (shift_end (shift_line selected_path)));
                            lane_change_finish_before_object =
                              (to_front_object_distance > to_lane_change_end_distance)
                        in if \<not> lane_change_finish_before_object
                              \<and> execute_only_when_lane_change_finish_before_object c
                           then Inr (False, m1)
                           else Inr (True, m1)))"

definition isExecutionReady :: "Config \<Rightarrow> World \<Rightarrow> Module \<Rightarrow> fault + (bool \<times> Module)" where
  "isExecutionReady c w m =
     (if current_state m = RUNNING then Inr (True, m)
      else
        case getLaneChangeLanes c w m (current_lanes_of c w) (lane_change_lane_length c) of
          Inl e \<Rightarrow> Inl e
        | Inr lanes \<Rightarrow>
            (case getSafePath c w m lanes (check_distance c) default_LaneChangePath of
               ((found_valid_path, found_safe_path), selected_path, m1) \<Rightarrow>
                 Inr (found_safe_path, m1)))"

subsection \<open>Path validity\<close>

definition isSafe :: "Module \<Rightarrow> bool" where
  "isSafe m = is_safe (status m)"

definition isValidPath :: "Module \<Rightarrow> bool" where
  "isValidPath m = is_valid_path (status m)"

text \<open>
  The overload \<^verbatim>\<open>isValidPath(const PathWithLaneId & path)\<close>. The lanelets it checks
  against are the expanded drivable lanes of the current and the lane change lanes. The
  inner loop is \<open>list_ex\<close> over the lanelets (it breaks at the first lanelet holding the
  point), the outer loop returns false at the first point that no lanelet holds.
\<close>

fun points_in_lanelets ::
  "(Pose \<Rightarrow> ConstLanelet \<Rightarrow> bool) \<Rightarrow> ConstLanelets \<Rightarrow> PathPointWithLaneId list \<Rightarrow> bool" where
  "points_in_lanelets inside lanelets [] = True"
| "points_in_lanelets inside lanelets (pt # pts) =
     (let is_in_lanelet = list_ex (\<lambda>lanelet. inside (pose pt) lanelet) lanelets in
      if \<not> is_in_lanelet then False else points_in_lanelets inside lanelets pts)"

definition expanded_drivable_lanelets :: "Config \<Rightarrow> World \<Rightarrow> Module \<Rightarrow> ConstLanelets" where
  "expanded_drivable_lanelets c w m =
     (let drivable_lanes =
            generateDrivableLanes_lane_change (lane_change_util w)
              (extendLanes (lanelet_util w) (current_lanes (status m)))
              (extendLanes (lanelet_util w) (lane_change_lanes (status m)));
          expanded_lanes =
            expandLanelets (lanelet_util w) drivable_lanes
              (drivable_area_left_bound_offset c) (drivable_area_right_bound_offset c) []
      in transformToLanelets (lanelet_util w) expanded_lanes)"

definition isValidPath_of ::
  "Config \<Rightarrow> World \<Rightarrow> Module \<Rightarrow> PathWithLaneId \<Rightarrow> bool" where
  "isValidPath_of c w m path_arg =
     (let lanelets = expanded_drivable_lanelets c w m
      in if \<not> points_in_lanelets (isInLanelet (lanelet_util w)) lanelets (points path_arg)
         then False
         else if \<not> checkPathRelativeAngle (path_util w) path_arg pi then False
         else True)"

definition isNearEndOfLane :: "World \<Rightarrow> Module \<Rightarrow> bool" where
  "isNearEndOfLane w m =
     (let threshold = calcTotalLaneChangeLength (lane_change_util w) in
      max 0 (getDistanceToEndOfLane (lanelet_util w) (getEgoPose w) (current_lanes (status m)))
        < threshold)"

definition isCurrentVelocityLow :: "World \<Rightarrow> bool" where
  "isCurrentVelocityLow w =
     (let threshold_ms = 10 * 1000 / 3600 in
      l2Norm (path_util w) (getEgoTwist w) < threshold_ms)"

text \<open>
  Modelled from the spec: the structure \<^verbatim>\<open>LaneChangePhaseInfo\<close> and its \<^verbatim>\<open>sum()\<close>
  are declared in a header that is not among the sources; the spec calls the value the
  cumulative length of the path, here the sum of the two phases.
\<close>

definition phase_sum :: "LaneChangePhaseInfo \<Rightarrow> real" where
  "phase_sum l = prepare l + lane_changing l"

definition hasFinishedLaneChange :: "Config \<Rightarrow> World \<Rightarrow> Module \<Rightarrow> bool" where
  "hasFinishedLaneChange c w m =
     (let arclength_current =
            getArcCoordinates (lanelet_util w) (lane_change_lanes (status m)) (getEgoPose w);
          travel_distance = arc_length arclength_current - start_distance (status m);
          finish_distance =
            phase_sum (phase_length (lane_change_path (status m)))
              + lane_change_finish_judge_buffer c
      in travel_distance > finish_distance)"

subsection \<open>The abort condition\<close>

text \<open>
  \<^verbatim>\<open>isApprovedPathSafe\<close> returns the verdict and the pose it writes through
  \<^verbatim>\<open>ego_pose_before_collision\<close>. It reads \<^verbatim>\<open>path.target_lanelets.front()\<close>.
\<close>

definition isApprovedPathSafe :: "Config \<Rightarrow> World \<Rightarrow> Module \<Rightarrow> fault + (bool \<times> Pose)" where
  "isApprovedPathSafe c w m =
     (let path_now = lane_change_path (status m) in
      if target_lanelets path_now = [] then Inl FrontOfEmptyVector
      else
        let check_lanes =
              getExtendedTargetLanesForCollisionCheck (lane_change_util w)
                (hd (target_lanelets path_now)) (getEgoPose w) (check_distance c);
            lateral_buffer =
              calcLateralBufferForFiltering (lane_change_util w) (vehicle_width c);
            dynamic_object_indices =
              filterObjectIndices (lane_change_util w) [path_now] check_lanes (getEgoPose w)
                (forward_path_length c) lateral_buffer
        in Inr (isLaneChangePathSafe (lane_change_util w) path_now dynamic_object_indices
                  (getEgoPose w) (getEgoTwist w)
                  (acceleration (lane_change_path (status m)))))"

definition isAbortConditionSatisfied ::
  "Config \<Rightarrow> World \<Rightarrow> Module \<Rightarrow> fault + (bool \<times> Module)" where
  "isAbortConditionSatisfied c w m =
     (let m1 = m\<lparr>is_abort_condition_satisfied := False,
                 current_lane_change_state := Normal\<rparr> in
      if \<not> enable_cancel_lane_change c then Inr (False, m1)
      else if \<not> is_activated m1 then Inr (False, m1)
      else
        case isApprovedPathSafe c w m1 of
          Inl e \<Rightarrow> Inl e
        | Inr (is_path_safe, ego_pose_before_collision) \<Rightarrow>
            if \<not> is_path_safe then
              let is_within_original_lane =
                    isEgoWithinOriginalLane (lane_change_util w) (current_lanes (status m1))
                      (getEgoPose w)
              in if is_within_original_lane
                 then Inr (True, m1\<lparr>current_lane_change_state := Cancel\<rparr>)
                 else if \<not> enable_abort_lane_change c
                 then Inr (False, m1\<lparr>current_lane_change_state := Stop\<rparr>)
                 else
                   let found_abort_path =
                         getAbortPaths (lane_change_util w) (lane_change_path (status m1))
                           ego_pose_before_collision
                   in if found_abort_path = None \<and> \<not> is_abort_path_approved m1
                      then Inr (True, m1\<lparr>current_lane_change_state := Stop\<rparr>)
                      else
                        let m2 = m1\<lparr>current_lane_change_state := Abort\<rparr>
                        in if \<not> is_abort_path_approved m2
                           then (case found_abort_path of
                                   None \<Rightarrow> Inl NullPointer
                                 | Some p \<Rightarrow> Inr (True, m2\<lparr>abort_path := Some p\<rparr>))
                           else Inr (True, m2)
            else Inr (False, m1))"

definition isAbortState :: "Config \<Rightarrow> Module \<Rightarrow> bool" where
  "isAbortState c m =
     (if \<not> enable_abort_lane_change c then False
      else if current_lane_change_state m \<noteq> Abort then False
      else if abort_path m = None then False
      else True)"

subsection \<open>The state update\<close>

definition return_state :: "ModuleStatus \<Rightarrow> Module \<Rightarrow> fault + (ModuleStatus \<times> Module)" where
  "return_state s m = Inr (s, m\<lparr>current_state := s\<rparr>)"

text \<open>The part of \<^verbatim>\<open>updateState\<close> below the block of \<^verbatim>\<open>if (isWaitingApproval())\<close>.\<close>

definition updateState_abort_and_finish ::
  "Config \<Rightarrow> World \<Rightarrow> Module \<Rightarrow> fault + (ModuleStatus \<times> Module)" where
  "updateState_abort_and_finish c w m =
     (let is_within_current_lane =
            isEgoWithinOriginalLane (lane_change_util w) (current_lanes (status m))
              (getEgoPose w)
      in if isAbortState c m \<and> \<not> is_within_current_lane then return_state RUNNING m
         else
           case isAbortConditionSatisfied c w m of
             Inl e \<Rightarrow> Inl e
           | Inr (satisfied, m1) \<Rightarrow>
               if satisfied then
                 if (isNearEndOfLane w m1 \<and> isCurrentVelocityLow w) \<or> \<not> is_within_current_lane
                 then return_state RUNNING m1
                 else return_state FAILURE m1
               else if hasFinishedLaneChange c w m1 then return_state SUCCESS m1
               else return_state RUNNING m1)"

definition updateState :: "Config \<Rightarrow> World \<Rightarrow> Module \<Rightarrow> fault + (ModuleStatus \<times> Module)" where
  "updateState c w m =
     (if \<not> isValidPath m then return_state SUCCESS m
      else if isWaitingApproval m then
        let object_num = length (target_objects (avoidance_data m)) in
        if execute_object_num c > object_num then return_state SUCCESS m
        else if target_objects (avoidance_data m) = [] then Inl FrontOfEmptyVector
        else
          let to_front_object_distance = longitudinal (hd (target_objects (avoidance_data m)))
          in if execute_object_longitudinal_margin c > to_front_object_distance
             then return_state FAILURE m
             else
               let to_lane_change_end_distance =
                     calcSignedArcLength (path_util w)
                       (points (path (lane_change_path (status m))))
                       (position (getEgoPose w))
                       (position (shift_end (shift_line (lane_change_path (status m)))));
                   lane_change_finish_before_object =
                     (to_front_object_distance > to_lane_change_end_distance)
               in if \<not> lane_change_finish_before_object
                     \<and> execute_only_when_lane_change_finish_before_object c
                  then return_state FAILURE m
                  else updateState_abort_and_finish c w m
      else updateState_abort_and_finish c w m)"

subsection \<open>Planning with approval\<close>

definition generateExtendedDrivableArea ::
  "Config \<Rightarrow> World \<Rightarrow> Module \<Rightarrow> PathWithLaneId \<Rightarrow> PathWithLaneId" where
  "generateExtendedDrivableArea c w m path_arg =
     (let drivable_lanes =
            generateDrivableLanes_lane_change (lane_change_util w) (current_lanes (status m))
              (lane_change_lanes (status m));
          (shorten_lanes, path1) = cutOverlappedLanes (path_util w) path_arg drivable_lanes;
          expanded_lanes =
            expandLanelets (lanelet_util w) shorten_lanes
              (drivable_area_left_bound_offset c) (drivable_area_right_bound_offset c) []
      in generateDrivableArea (path_util w) path1 expanded_lanes (vehicle_length c))"

definition updateOutputTurnSignal ::
  "World \<Rightarrow> Module \<Rightarrow> BehaviorModuleOutput \<Rightarrow> BehaviorModuleOutput" where
  "updateOutputTurnSignal w m output_arg =
     (let turn_signal_info =
            getPathTurnSignal (path_util w) (current_lanes (status m))
              (shifted_path (lane_change_path (status m)))
              (shift_line (lane_change_path (status m))) (getEgoPose w)
              (fst (getEgoTwist w));
          info1 = (out_turn_signal_info output_arg)
                    \<lparr>turn_signal_command := fst turn_signal_info\<rparr>
      in output_arg\<lparr>out_turn_signal_info :=
           get_turn_signal_info (lane_change_util w) (lane_change_path (status m)) info1\<rparr>)"

text \<open>\<^verbatim>\<open>updateSteeringFactorPtr(const BehaviorModuleOutput & output)\<close>, for a set output path.\<close>

definition updateSteeringFactorPtr ::
  "World \<Rightarrow> Module \<Rightarrow> PathWithLaneId \<Rightarrow> TurnSignalInfo \<Rightarrow> Module" where
  "updateSteeringFactorPtr w m output_path turn_signal_info =
     (let start_distance_now =
            calcSignedArcLength (path_util w) (points output_path) (position (getEgoPose w))
              (position (shift_start (shift_line (lane_change_path (status m)))));
          finish_distance_now =
            calcSignedArcLength (path_util w) (points output_path) (position (getEgoPose w))
              (position (shift_end (shift_line (lane_change_path (status m)))));
          (steering_factor_direction, m1) =
            (if turn_signal_command turn_signal_info = ENABLE_LEFT
             then (SF_LEFT, waitApprovalLeft start_distance_now finish_distance_now m)
             else if turn_signal_command turn_signal_info = ENABLE_RIGHT
             then (SF_RIGHT, waitApprovalRight start_distance_now finish_distance_now m)
             else (SF_UNKNOWN, m))
      in interface_call
           (UpdateSteeringFactor
              (shift_start (shift_line (lane_change_path (status m))),
               shift_end (shift_line (lane_change_path (status m))))
              (start_distance_now, finish_distance_now) steering_factor_direction TURNING)
           m1)"

text \<open>
  \<^verbatim>\<open>updateSteeringFactorPtr(const CandidateOutput & output, const LaneChangePath & selected_path)\<close>.
\<close>

definition updateSteeringFactorPtr_candidate ::
  "Module \<Rightarrow> CandidateOutput \<Rightarrow> LaneChangePath \<Rightarrow> Module" where
  "updateSteeringFactorPtr_candidate m output_arg selected_path =
     (let steering_factor_direction = (if lateral_shift output_arg > 0 then SF_LEFT else SF_RIGHT)
      in interface_call
           (UpdateSteeringFactor
              (shift_start (shift_line selected_path), shift_end (shift_line selected_path))
              (start_distance_to_path_change output_arg,
               finish_distance_to_path_change output_arg)
              steering_factor_direction APPROACHING)
           m)"

definition resetPathIfAbort :: "Config \<Rightarrow> World \<Rightarrow> Module \<Rightarrow> fault + Module" where
  "resetPathIfAbort c w m =
     (if \<not> is_abort_approval_requested m then
        if USE_OLD_ARCHITECTURE c then
          case abort_path m of
            None \<Rightarrow> Inl NullPointer
          | Some abort_path_now \<Rightarrow>
              let lateral_shift_now = getLateralShift (lane_change_util w) abort_path_now in
              if lateral_shift_now > 0 then
                let m1 = removePreviousRTCStatusRight m in
                if uuid_map m1 ''right'' = None then Inl AtOutOfRange
                else Inr (m1\<lparr>uuid_map := (uuid_map m1)(''right'' \<mapsto> generateUUID (planner_data w)),
                            is_abort_approval_requested := True,
                            is_abort_path_approved := False\<rparr>)
              else if lateral_shift_now < 0 then
                let m1 = removePreviousRTCStatusLeft m in
                if uuid_map m1 ''left'' = None then Inl AtOutOfRange
                else Inr (m1\<lparr>uuid_map := (uuid_map m1)(''left'' \<mapsto> generateUUID (planner_data w)),
                            is_abort_approval_requested := True,
                            is_abort_path_approved := False\<rparr>)
              else Inr (m\<lparr>is_abort_approval_requested := True,
                          is_abort_path_approved := False\<rparr>)
        else Inr ((removeRTCStatus m)\<lparr>is_abort_approval_requested := True,
                                       is_abort_path_approved := False\<rparr>)
      else if isActivated (planner_data w)
      then Inr (clearWaitingApproval (m\<lparr>is_abort_path_approved := True\<rparr>))
      else Inr (waitApproval (m\<lparr>is_abort_path_approved := False\<rparr>)))"

text \<open>
  The part of \<^verbatim>\<open>plan\<close> from \<^verbatim>\<open>generateExtendedDrivableArea(path)\<close> on: the chosen
  path is published.
\<close>

definition plan_publish ::
  "Config \<Rightarrow> World \<Rightarrow> Module \<Rightarrow> PathWithLaneId \<Rightarrow> fault + (BehaviorModuleOutput \<times> Module)" where
  "plan_publish c w m path_arg =
     (let path1 = generateExtendedDrivableArea c w m path_arg;
          output0 = default_BehaviorModuleOutput\<lparr>out_path := Some path1\<rparr>;
          finish = (\<lambda>output1 m1.
            let output2 = updateOutputTurnSignal w m1 output1;
                m2 = updateSteeringFactorPtr w m1 path1 (out_turn_signal_info output2)
            in Inr (output2, clearWaitingApproval m2))
      in if USE_OLD_ARCHITECTURE c then
           finish output0
             (m\<lparr>path_reference_ptr := Some (previous_reference_path (planner_data w)),
                prev_approved_path := path1\<rparr>)
         else if lane_change_lanes (status m) = [] then Inl FrontOfEmptyVector
         else
           let reference_path_now =
                 getCenterLinePathFromRootLanelet (path_util w)
                   (hd (lane_change_lanes (status m)))
           in finish (output0\<lparr>out_reference_path := Some reference_path_now\<rparr>)
                (m\<lparr>path_reference_ptr := Some reference_path_now,
                   prev_approved_path := previous_path (planner_data w)\<rparr>))"

text \<open>
  The part of \<^verbatim>\<open>plan\<close> between the validity check and the publication: the stop point,
  and the abort path in place of the lane change path.
\<close>

definition plan_valid ::
  "Config \<Rightarrow> World \<Rightarrow> Module \<Rightarrow> PathWithLaneId \<Rightarrow> fault + (BehaviorModuleOutput \<times> Module)" where
  "plan_valid c w m path0 =
     (let path1 =
            (if is_abort_condition_satisfied m \<and> isNearEndOfLane w m \<and> isCurrentVelocityLow w
             then insertStopPoint (path_util w) 0.1 path0 else path0)
      in if isAbortState c m then
           case resetPathIfAbort c w m of
             Inl e \<Rightarrow> Inl e
           | Inr m1 \<Rightarrow>
               if is_activated m1 then
                 (case abort_path m1 of
                    None \<Rightarrow> Inl NullPointer
                  | Some abort_path_now \<Rightarrow> plan_publish c w m1 (path abort_path_now))
               else plan_publish c w m1 path1
         else plan_publish c w m path1)"

definition plan :: "Config \<Rightarrow> World \<Rightarrow> Module \<Rightarrow> fault + (BehaviorModuleOutput \<times> Module)" where
  "plan c w m =
     (let m1 = (resetPathReference (resetPathCandidate m))
                 \<lparr>is_activated := isActivated (planner_data w)\<rparr>;
          path0 = path (lane_change_path (status m1))
      in if \<not> isValidPath_of c w m1 path0
         then Inr (default_BehaviorModuleOutput,
                   m1\<lparr>status := (status m1)\<lparr>is_valid_path := False\<rparr>\<rparr>)
         else plan_valid c w (m1\<lparr>status := (status m1)\<lparr>is_valid_path := True\<rparr>\<rparr>) path0)"

subsection \<open>Planning while waiting for approval\<close>

text \<open>The end of \<^verbatim>\<open>planCandidate\<close>, from the test of the selected path's points on.\<close>

definition planCandidate_output ::
  "World \<Rightarrow> Module \<Rightarrow> LaneChangePath \<Rightarrow> CandidateOutput \<times> Module" where
  "planCandidate_output w m selected_path =
     (if points (path selected_path) = [] then (default_CandidateOutput, m)
      else
        let output1 =
              \<lparr>path_candidate = path selected_path,
               lateral_shift = getLateralShift (lane_change_util w) selected_path,
               start_distance_to_path_change =
                 calcSignedArcLength (path_util w) (points (path selected_path))
                   (position (getEgoPose w)) (position (shift_start (shift_line selected_path))),
               finish_distance_to_path_change =
                 calcSignedArcLength (path_util w) (points (path selected_path))
                   (position (getEgoPose w)) (position (shift_end (shift_line selected_path)))\<rparr>
        in (output1, updateSteeringFactorPtr_candidate m output1 selected_path))"

definition planCandidate :: "Config \<Rightarrow> World \<Rightarrow> Module \<Rightarrow> fault + (CandidateOutput \<times> Module)" where
  "planCandidate c w m =
     (case getLaneChangeLanes c w m (current_lanes_of c w) (lane_change_lane_length c) of
        Inl e \<Rightarrow> Inl e
      | Inr lanes \<Rightarrow>
          if lanes = [] then Inr (default_CandidateOutput, m)
          else
            let (selected_path0, m1) =
                  (if USE_OLD_ARCHITECTURE c
                   then (case getSafePath c w m lanes (check_distance c) default_LaneChangePath of
                           (flags, safe_path, m') \<Rightarrow> (safe_path, m'))
                   else (lane_change_path (status m), m));
                selected_path1 =
                  selected_path0\<lparr>path := (path selected_path0)
                                    \<lparr>header := getRouteHeader (route_handler w)\<rparr>\<rparr>
            in if isAbortState c m1 then
                 (case abort_path m1 of
                    None \<Rightarrow> Inl NullPointer
                  | Some abort_path_now \<Rightarrow> Inr (planCandidate_output w m1 abort_path_now))
               else Inr (planCandidate_output w m1 selected_path1))"

definition updateLaneChangeStatus :: "Config \<Rightarrow> World \<Rightarrow> Module \<Rightarrow> fault + Module" where
  "updateLaneChangeStatus c w m =
     (let m1 = m\<lparr>status := (status m)\<lparr>current_lanes := current_lanes_of c w\<rparr>\<rparr> in
      case getLaneChangeLanes c w m1 (current_lanes (status m1)) (lane_change_lane_length c) of
        Inl e \<Rightarrow> Inl e
      | Inr lanes \<Rightarrow>
          let m2 = m1\<lparr>status := (status m1)\<lparr>lane_change_lanes := lanes\<rparr>\<rparr> in
          (case getSafePath c w m2 (lane_change_lanes (status m2)) (check_distance c)
                  default_LaneChangePath of
             ((found_valid_path, found_safe_path), selected_path, m3) \<Rightarrow>
               let arclength_start =
                     getArcCoordinates (lanelet_util w) (lane_change_lanes (status m3))
                       (getEgoPose w)
               in Inr (m3\<lparr>status := (status m3)
                         \<lparr>is_safe := found_safe_path,
                          lane_change_path :=
                            selected_path\<lparr>path := (path selected_path)
                              \<lparr>header := getRouteHeader (route_handler w)\<rparr>\<rparr>,
                          lane_follow_lane_ids :=
                            getIds (lanelet_util w) (current_lanes (status m3)),
                          lane_change_lane_ids :=
                            getIds (lanelet_util w) (lane_change_lanes (status m3)),
                          start_distance := arc_length arclength_start\<rparr>\<rparr>)))"

definition getReferencePath :: "Config \<Rightarrow> World \<Rightarrow> PathWithLaneId" where
  "getReferencePath c w =
     (let reference_path0 = default_PathWithLaneId\<lparr>header := getRouteHeader (route_handler w)\<rparr>;
          current_lanes_now = current_lanes_of c w
      in if current_lanes_now = [] then reference_path0
         else
           let reference_path1 =
                 (if points reference_path0 = []
                  then getCenterLinePath (path_util w) current_lanes_now (getEgoPose w)
                         (backward_path_length c) (forward_path_length c) None
                  else reference_path0);
               num_lane_change =
                 \<bar>getNumLaneToPreferredLane (route_handler w) (last current_lanes_now)\<bar>;
               reference_path2 =
                 getCenterLinePath (path_util w) current_lanes_now (getEgoPose w)
                   (backward_path_length c) (forward_path_length c) (Some 0);
               lane_change_buffer =
                 calcLaneChangeBuffer (lane_change_util w) num_lane_change 0;
               reference_path3 =
                 setDecelerationVelocity (path_util w) reference_path2 current_lanes_now
                   (prepare_duration c) lane_change_buffer;
               drivable_lanes = generateDrivableLanes (lanelet_util w) current_lanes_now;
               (shorten_lanes, reference_path4) =
                 cutOverlappedLanes (path_util w) reference_path3 drivable_lanes;
               expanded_lanes =
                 expandLanelets (lanelet_util w) shorten_lanes
                   (drivable_area_left_bound_offset c) (drivable_area_right_bound_offset c)
                   (drivable_area_types_to_skip c)
           in generateDrivableArea (path_util w) reference_path4 expanded_lanes
                (vehicle_length c))"

definition planWaitingApproval ::
  "Config \<Rightarrow> World \<Rightarrow> Module \<Rightarrow> fault + (BehaviorModuleOutput \<times> Module)" where
  "planWaitingApproval c w m =
     (let m1 =
            (if USE_OLD_ARCHITECTURE c then
               if isEgoWithinOriginalLane (lane_change_util w) (current_lanes (status m))
                    (getEgoPose w)
               then m\<lparr>prev_approved_path := getReferencePath c w\<rparr> else m
             else m\<lparr>prev_approved_path := previous_path (planner_data w)\<rparr>);
          out_path0 = prev_approved_path m1;
          out_path1 =
            (if target_objects (avoidance_data m1) \<noteq> [] then
               let to_front_object_distance =
                     longitudinal (hd (target_objects (avoidance_data m1)));
                   lane_change_buffer = minimum_lane_changing_length c
               in insertDecelPoint (avoidance_util w) (getEgoPosition w)
                    (to_front_object_distance - lane_change_buffer) 0 out_path0
             else out_path0);
          out = \<lparr>out_path = Some out_path1,
                 out_reference_path = Some (previous_reference_path (planner_data w)),
                 out_turn_signal_info = previous_turn_signal_info (planner_data w)\<rparr>
      in case (if USE_OLD_ARCHITECTURE c then Inr m1 else updateLaneChangeStatus c w m1) of
           Inl e \<Rightarrow> Inl e
         | Inr m2 \<Rightarrow>
             (case planCandidate c w m2 of
                Inl e \<Rightarrow> Inl e
              | Inr (candidate, m3) \<Rightarrow>
                  let m4 = m3\<lparr>path_candidate_ptr := Some (path_candidate candidate),
                              path_reference_ptr :=
                                Some (previous_reference_path (planner_data w))\<rparr>;
                      m5 = waitApproval (updateRTCStatus candidate m4)
                  in Inr (out, m5\<lparr>is_abort_path_approved := False\<rparr>)))"

subsection \<open>Entry and exit\<close>

definition resetParameters :: "Module \<Rightarrow> Module" where
  "resetParameters m =
     resetPathReference (resetPathCandidate
       (m\<lparr>is_abort_path_approved := False,
          is_abort_approval_requested := False,
          current_lane_change_state := Normal,
          abort_path := None\<rparr>))"

definition processOnEntry :: "Config \<Rightarrow> World \<Rightarrow> Module \<Rightarrow> fault + Module" where
  "processOnEntry c w m =
     (let m1 = (if USE_OLD_ARCHITECTURE c then m else waitApproval m);
          m2 = m1\<lparr>current_lane_change_state := Normal\<rparr>
      in updateLaneChangeStatus c w m2)"

definition processOnExit :: "Module \<Rightarrow> Module" where
  "processOnExit m = resetParameters m"

subsection \<open>The avoidance data of a cycle\<close>

text \<open>
  \<^verbatim>\<open>createObjectData\<close> reads the reference path with \<^verbatim>\<open>at()\<close> and, through
  \<^verbatim>\<open>fillObjectMovingTime\<close>, updates the mutable member \<^verbatim>\<open>stopped_objects_\<close>.
\<close>

definition createObjectData ::
  "Config \<Rightarrow> World \<Rightarrow> Module \<Rightarrow> AvoidancePlanningData \<Rightarrow> PredictedObject
    \<Rightarrow> fault + (ObjectData \<times> Module)" where
  "createObjectData c w m data_arg object_arg =
     (let path_points = points (reference_path data_arg);
          object_pose = initial_pose object_arg;
          object_closest_index =
            findNearestIndex (path_util w) path_points (position object_pose)
      in if \<not> unat object_closest_index < length path_points then Inl AtOutOfRange
         else
           let object_closest_pose = pose (path_points ! unat object_closest_index);
               d0 = default_ObjectData\<lparr>object := object_arg\<rparr>;
               d1 = fillObjectEnvelopePolygon (avoidance_util w) d0 (registered_objects m)
                      object_closest_pose;
               d2 = d1\<lparr>centroid := return_centroid (avoidance_util w) (envelope_poly d1)\<rparr>;
               d3 = fillLongitudinalAndLengthByClosestEnvelopeFootprint (avoidance_util w)
                      (reference_path data_arg) (getEgoPosition w) d2;
               (d4, stopped) = fillObjectMovingTime (avoidance_util w) d3 (stopped_objects m);
               d5 = d4\<lparr>lateral :=
                        calcLateralDeviation (avoidance_util w) object_closest_pose
                          (position object_pose)\<rparr>;
               (overhang, overhang_position) =
                 calcEnvelopeOverhangDistance (avoidance_util w) d5 object_closest_pose;
               d6 = d5\<lparr>overhang_pose := (overhang_pose d5)\<lparr>position := overhang_position\<rparr>,
                       overhang_dist := overhang\<rparr>;
               safety_margin = 0.5 * vehicle_width c + lateral_passable_safety_buffer c;
               d7 = d6\<lparr>avoid_required :=
                        ((isOnRight (avoidance_util w) d6 \<and> \<bar>overhang_dist d6\<bar> < safety_margin)
                         \<or> (\<not> isOnRight (avoidance_util w) d6
                             \<and> overhang_dist d6 < safety_margin))\<rparr>
           in Inr (d7, m\<lparr>stopped_objects := stopped\<rparr>))"

text \<open>The second loop of \<^verbatim>\<open>fillAvoidanceTargetObjects\<close>.\<close>

fun createObjectData_each ::
  "Config \<Rightarrow> World \<Rightarrow> Module \<Rightarrow> AvoidancePlanningData \<Rightarrow> PredictedObject list
    \<Rightarrow> fault + (ObjectDataArray \<times> Module)" where
  "createObjectData_each c w m data_arg [] = Inr ([], m)"
| "createObjectData_each c w m data_arg (ob # obs) =
     (case createObjectData c w m data_arg ob of
        Inl e \<Rightarrow> Inl e
      | Inr (d, m1) \<Rightarrow>
          (case createObjectData_each c w m1 data_arg obs of
             Inl e \<Rightarrow> Inl e
           | Inr (ds, m2) \<Rightarrow> Inr (d # ds, m2)))"

definition fillAvoidanceTargetObjects ::
  "Config \<Rightarrow> World \<Rightarrow> Module \<Rightarrow> AvoidancePlanningData
    \<Rightarrow> fault + (AvoidancePlanningData \<times> Module)" where
  "fillAvoidanceTargetObjects c w m data_arg =
     (let expanded_lanelets =
            getExpandedLanelets (lanelet_util w) (current_lanelets data_arg)
              (detection_area_left_expand_dist c)
              (detection_area_right_expand_dist c * (- 1));
          (object_within_target_lane, object_outside_target_lane) =
            separateObjectsByLanelets (avoidance_util w) (dynamic_object (planner_data w))
              expanded_lanelets;
          data1 = data_arg\<lparr>other_objects := other_objects data_arg @
                    map (\<lambda>ob. default_ObjectData\<lparr>object := ob, reason := ''OutOfTargetArea''\<rparr>)
                      object_outside_target_lane\<rparr>
      in case createObjectData_each c w m data1 object_within_target_lane of
           Inl e \<Rightarrow> Inl e
         | Inr (objects, m1) \<Rightarrow>
             Inr (filterTargetObjects (avoidance_util w) objects data1, m1))"

definition calcAvoidancePlanningData ::
  "Config \<Rightarrow> World \<Rightarrow> Module \<Rightarrow> fault + (AvoidancePlanningData \<times> Module)" where
  "calcAvoidancePlanningData c w m =
     (let reference_pose_now = getEgoPose w;
          reference_path_now =
            resamplePathWithSpline (path_util w) (previous_path (planner_data w))
              (resample_interval_for_planning c);
          nearest_segment_index =
            findNearestSegmentIndex (path_util w) (points reference_path_now)
              (position reference_pose_now);
          data0 =
            \<lparr>reference_pose = reference_pose_now,
             reference_path = reference_path_now,
             ego_closest_path_index =
               min (nearest_segment_index + 1)
                   (of_nat (length (points reference_path_now)) - 1),
             arclength_from_ego =
               calcPathArcLengthArray (path_util w) reference_path_now 0
                 (length (points reference_path_now))
                 (calcSignedArcLength_to_index (path_util w) (points reference_path_now)
                    (getEgoPosition w) 0),
             current_lanelets = current_lanes_of c w,
             target_objects = [],
             other_objects = []\<rparr>
      in fillAvoidanceTargetObjects c w m data0)"

text \<open>
  \<^verbatim>\<open>std::sort\<close> with a comparator: the result is a permutation of the range in which
  no element is followed by one that the comparator puts before it. The order of equal
  elements is unspecified in C++; here it is the order of an insertion sort.
\<close>

fun sort_insert :: "('a \<Rightarrow> 'a \<Rightarrow> bool) \<Rightarrow> 'a \<Rightarrow> 'a list \<Rightarrow> 'a list" where
  "sort_insert cmp a [] = [a]"
| "sort_insert cmp a (b # bs) =
     (if cmp b a then b # sort_insert cmp a bs else a # b # bs)"

fun std_sort :: "('a \<Rightarrow> 'a \<Rightarrow> bool) \<Rightarrow> 'a list \<Rightarrow> 'a list" where
  "std_sort cmp [] = []"
| "std_sort cmp (a # as) = sort_insert cmp a (std_sort cmp as)"

definition updateData :: "Config \<Rightarrow> World \<Rightarrow> Module \<Rightarrow> fault + Module" where
  "updateData c w m =
     (case calcAvoidancePlanningData c w m of
        Inl e \<Rightarrow> Inl e
      | Inr (data0, m1) \<Rightarrow>
          let registered =
                updateRegisteredObject (avoidance_util w) (registered_objects m1)
                  (target_objects data0);
              (targets, others) =
                compensateDetectionLost (avoidance_util w) registered (target_objects data0)
                  (other_objects data0);
              sorted_targets = std_sort (\<lambda>a b. longitudinal a < longitudinal b) targets
          in Inr (m1\<lparr>avoidance_data :=
                        data0\<lparr>target_objects := sorted_targets, other_objects := others\<rparr>,
                      registered_objects := registered\<rparr>))"

subsection \<open>Sequences of calls\<close>

text \<open>
  The member functions the planner manager calls, and a run of them: each call meets its
  own world, and a fault ends the run.
\<close>

datatype Call =
    ProcessOnEntry
  | ProcessOnExit
  | IsExecutionRequested
  | IsExecutionReady
  | UpdateData
  | UpdateState
  | Plan
  | PlanCandidate
  | PlanWaitingApproval

fun call :: "Config \<Rightarrow> World \<Rightarrow> Call \<Rightarrow> Module \<Rightarrow> fault + Module" where
  "call c w ProcessOnEntry m = processOnEntry c w m"
| "call c w ProcessOnExit m = Inr (processOnExit m)"
| "call c w IsExecutionRequested m = map_sum id snd (isExecutionRequested c w m)"
| "call c w IsExecutionReady m = map_sum id snd (isExecutionReady c w m)"
| "call c w UpdateData m = updateData c w m"
| "call c w UpdateState m = map_sum id snd (updateState c w m)"
| "call c w Plan m = map_sum id snd (plan c w m)"
| "call c w PlanCandidate m = map_sum id snd (planCandidate c w m)"
| "call c w PlanWaitingApproval m = map_sum id snd (planWaitingApproval c w m)"

fun run :: "Config \<Rightarrow> (World \<times> Call) list \<Rightarrow> Module \<Rightarrow> fault + Module" where
  "run c [] m = Inr m"
| "run c ((w, f) # rest) m =
     (case call c w f m of Inl e \<Rightarrow> Inl e | Inr m1 \<Rightarrow> run c rest m1)"

subsection \<open>A concrete road\<close>

text \<open>
  One world, configuration and module on which the functions are evaluated: the ego
  vehicle drives on lanelet 1, lanelet 2 lies to its left, the path generator proposes two
  candidates and judges them safe, and every path point lies inside a drivable lanelet.
\<close>

definition path_point :: "real \<Rightarrow> PathPointWithLaneId" where
  "path_point x = \<lparr>pose = default_Pose\<lparr>position := (x, 0, 0)\<rparr>, lane_ids = [1]\<rparr>"

definition candidate :: "nat \<Rightarrow> LaneChangePath" where
  "candidate n =
     default_LaneChangePath
       \<lparr>path := \<lparr>header = n, points = [path_point 0, path_point 1]\<rparr>,
        target_lanelets := [2]\<rparr>"

definition object_at :: "real \<Rightarrow> ObjectData" where
  "object_at d = default_ObjectData\<lparr>longitudinal := d\<rparr>"

definition road_config :: Config where
  "road_config =
     \<lparr>USE_OLD_ARCHITECTURE = False,
      execute_object_num = 1,
      execute_object_longitudinal_margin = 5,
      execute_only_when_lane_change_finish_before_object = True,
      resample_interval_for_planning = 1,
      detection_area_left_expand_dist = 0,
      detection_area_right_expand_dist = 0,
      lateral_passable_safety_buffer = 0,
      prepare_duration = 4,
      lane_change_finish_judge_buffer = 3,
      drivable_area_left_bound_offset = 0,
      drivable_area_right_bound_offset = 0,
      drivable_area_types_to_skip = [],
      enable_cancel_lane_change = True,
      enable_abort_lane_change = True,
      publish_debug_marker = False,
      minimum_lane_changing_length = 12,
      vehicle_width = 2,
      vehicle_length = 4,
      backward_path_length = 5,
      forward_path_length = 300,
      lane_change_lane_length = 200,
      check_distance = 100\<rparr>"

definition road_planner_data :: PlannerData where
  "road_planner_data =
     \<lparr>ego_pose = default_Pose,
      ego_twist_linear = (0, 0, 0),
      dynamic_object = [],
      previous_path = \<lparr>header = 0, points = [path_point 0]\<rparr>,
      previous_reference_path = \<lparr>header = 0, points = [path_point 0]\<rparr>,
      previous_turn_signal_info = default_TurnSignalInfo,
      isActivated = True,
      generateUUID = 7\<rparr>"

definition road_route_handler :: RouteHandler where
  "road_route_handler =
     \<lparr>getRouteHeader = 0,
      getLaneletSequence = (\<lambda>l p b f. [l]),
      routing_left = (\<lambda>l. if l = 1 then Some 2 else None),
      routing_right = (\<lambda>l. None),
      getNumLaneToPreferredLane = (\<lambda>l. 0)\<rparr>"

definition road_lanelet_util :: LaneletUtil where
  "road_lanelet_util =
     \<lparr>getCurrentLanes = [1],
      getCurrentLanesFromPath = (\<lambda>p. [1]),
      getClosestLanelet = (\<lambda>ls p. Some 1),
      getExpandedLanelets = (\<lambda>ls l r. ls),
      extendLanes = (\<lambda>ls. ls),
      generateDrivableLanes = (\<lambda>ls. []),
      expandLanelets = (\<lambda>ds l r t. ds),
      transformToLanelets = (\<lambda>ds. [1, 2]),
      isInLanelet = (\<lambda>p l. True),
      getDistanceToEndOfLane = (\<lambda>p ls. 100),
      getArcCoordinates = (\<lambda>ls p. \<lparr>arc_length = 0, arc_distance = 0\<rparr>),
      getIds = (\<lambda>ls. ls)\<rparr>"

definition road_path_util :: PathUtil where
  "road_path_util =
     \<lparr>calcSignedArcLength = (\<lambda>pts a b. 30),
      calcSignedArcLength_to_index = (\<lambda>pts a i. 0),
      findNearestSegmentIndex = (\<lambda>pts a. 0),
      findNearestIndex = (\<lambda>pts a. 0),
      calcPathArcLengthArray = (\<lambda>p i j offset. []),
      resamplePathWithSpline = (\<lambda>p interval. p),
      checkPathRelativeAngle = (\<lambda>p a. True),
      l2Norm = (\<lambda>v. 0),
      insertStopPoint = (\<lambda>d p. p),
      cutOverlappedLanes = (\<lambda>p ds. (ds, p)),
      generateDrivableArea = (\<lambda>p ds l. p),
      getCenterLinePathFromRootLanelet = (\<lambda>l. default_PathWithLaneId),
      getCenterLinePath = (\<lambda>ls p b f opt. default_PathWithLaneId),
      setDecelerationVelocity = (\<lambda>p ls d b. p),
      getPathTurnSignal = (\<lambda>ls sp sl p v. (ENABLE_LEFT, 0))\<rparr>"

definition road_lane_change_util :: LaneChangeUtil where
  "road_lane_change_util =
     \<lparr>getLaneChangePaths_old = (\<lambda>cur tgt d. (True, [candidate 1, candidate 2])),
      getLaneChangePaths = (\<lambda>p cur tgt d dir. (True, [candidate 1, candidate 2])),
      generateDrivableLanes_lane_change = (\<lambda>cur tgt. []),
      isEgoWithinOriginalLane = (\<lambda>ls p. False),
      getAbortPaths = (\<lambda>p e. Some (candidate 3)),
      getExtendedTargetLanesForCollisionCheck = (\<lambda>l p d. [l]),
      calcLateralBufferForFiltering = (\<lambda>v. v),
      filterObjectIndices = (\<lambda>ps ls p f b. []),
      isLaneChangePathSafe = (\<lambda>p is e t a. (False, default_Pose)),
      get_turn_signal_info = (\<lambda>p info. info),
      getLateralShift = (\<lambda>p. 0),
      calcTotalLaneChangeLength = 20,
      calcLaneChangeBuffer = (\<lambda>n d. 0)\<rparr>"

definition road_avoidance_util :: AvoidanceUtil where
  "road_avoidance_util =
     \<lparr>isOnRight = (\<lambda>d. True),
      insertDecelPoint = (\<lambda>e d v p. p),
      separateObjectsByLanelets = (\<lambda>obs ls. (obs, [])),
      fillObjectEnvelopePolygon = (\<lambda>d reg p. d),
      return_centroid = (\<lambda>poly. (0, 0)),
      fillLongitudinalAndLengthByClosestEnvelopeFootprint = (\<lambda>p e d. d),
      fillObjectMovingTime = (\<lambda>d st. (d, st)),
      calcLateralDeviation = (\<lambda>p q. 0),
      calcEnvelopeOverhangDistance = (\<lambda>d p. (0, (0, 0, 0))),
      filterTargetObjects = (\<lambda>ds data. data\<lparr>target_objects := ds\<rparr>),
      updateRegisteredObject = (\<lambda>reg ds. reg),
      compensateDetectionLost = (\<lambda>reg ts os. (ts @ [object_at 3], os))\<rparr>"

definition road_world :: World where
  "road_world =
     \<lparr>planner_data = road_planner_data,
      route_handler = road_route_handler,
      lanelet_util = road_lanelet_util,
      path_util = road_path_util,
      lane_change_util = road_lane_change_util,
      avoidance_util = road_avoidance_util\<rparr>"

definition road_status :: LaneChangeStatus where
  "road_status =
     \<lparr>lane_follow_path = default_PathWithLaneId,
      lane_change_path = candidate 2,
      current_lanes = [1],
      lane_change_lanes = [2],
      lane_follow_lane_ids = [1],
      lane_change_lane_ids = [2],
      is_safe = True,
      is_valid_path = True,
      start_distance = 0\<rparr>"

definition road_avoidance_data :: "ObjectDataArray \<Rightarrow> AvoidancePlanningData" where
  "road_avoidance_data objs =
     \<lparr>reference_pose = default_Pose,
      reference_path = \<lparr>header = 0, points = [path_point 0]\<rparr>,
      ego_closest_path_index = 0,
      arclength_from_ego = [],
      current_lanelets = [1],
      target_objects = objs,
      other_objects = []\<rparr>"

text \<open>The module waiting for approval, with the given target objects.\<close>

definition road_module :: "ObjectDataArray \<Rightarrow> Module" where
  "road_module objs =
     \<lparr>current_state = IDLE,
      current_lane_change_state = Normal,
      is_waiting_approval = True,
      is_activated = False,
      is_abort_condition_satisfied = False,
      is_abort_path_approved = False,
      is_abort_approval_requested = False,
      abort_path = None,
      status = road_status,
      avoidance_data = road_avoidance_data objs,
      registered_objects = [],
      stopped_objects = [],
      debug_valid_path = [],
      prev_approved_path = default_PathWithLaneId,
      path_candidate_ptr = None,
      path_reference_ptr = None,
      uuid_map = [''left'' \<mapsto> 1, ''right'' \<mapsto> 2],
      interface_calls = []\<rparr>"

text \<open>The same road when the path generator judges no candidate safe.\<close>

definition unsafe_world :: World where
  "unsafe_world =
     road_world\<lparr>lane_change_util := road_lane_change_util
       \<lparr>getLaneChangePaths := (\<lambda>p cur tgt d dir. (False, [candidate 1, candidate 2])),
        getLaneChangePaths_old := (\<lambda>cur tgt d. (False, [candidate 1, candidate 2]))\<rparr>\<rparr>"

text \<open>The same road when no point of a path lies inside a drivable lanelet.\<close>

definition outside_world :: World where
  "outside_world =
     road_world\<lparr>lanelet_util := road_lanelet_util\<lparr>isInLanelet := (\<lambda>p l. False)\<rparr>\<rparr>"

text \<open>The module after approval, during the lane change.\<close>

definition running_module :: "ObjectDataArray \<Rightarrow> Module" where
  "running_module objs =
     (road_module objs)
       \<lparr>current_state := RUNNING, is_waiting_approval := False, is_activated := True\<rparr>"

text \<open>The module in the Abort sub-state, before the approval of the abort path is requested.\<close>

definition aborting_module :: Module where
  "aborting_module =
     (running_module [object_at 40])
       \<lparr>current_lane_change_state := Abort, abort_path := Some (candidate 3)\<rparr>"

text \<open>The same road when detection-loss compensation returns three objects out of order.\<close>

definition compensating_world :: World where
  "compensating_world =
     road_world\<lparr>avoidance_util := road_avoidance_util
       \<lparr>compensateDetectionLost :=
          (\<lambda>reg ts os. ([object_at 40, object_at 3, object_at 12], os))\<rparr>\<rparr>"

text \<open>The configurations with the abort disabled, and with the old architecture.\<close>

definition no_abort_config :: Config where
  "no_abort_config = road_config\<lparr>enable_abort_lane_change := False\<rparr>"

definition old_architecture_config :: Config where
  "old_architecture_config = road_config\<lparr>USE_OLD_ARCHITECTURE := True\<rparr>"

text \<open>The same road when the approval interface reports no activation.\<close>

definition inactive_world :: World where
  "inactive_world = road_world\<lparr>planner_data := road_planner_data\<lparr>isActivated := False\<rparr>\<rparr>"

text \<open>
  The same road when the drivable lanelets end at 5 m: they hold the points of the lane
  change candidates and not the point of an abort path that lies at 10 m.
\<close>

definition bounded_world :: World where
  "bounded_world =
     road_world\<lparr>lanelet_util := road_lanelet_util
       \<lparr>isInLanelet := (\<lambda>p l. fst (position p) < 5)\<rparr>\<rparr>"

definition outside_abort_path :: LaneChangePath where
  "outside_abort_path =
     default_LaneChangePath
       \<lparr>path := \<lparr>header = 3, points = [path_point 10]\<rparr>, target_lanelets := [1]\<rparr>"

text \<open>The module in the Abort sub-state after the approval of that abort path was requested.\<close>

definition approved_abort_module :: Module where
  "approved_abort_module =
     aborting_module
       \<lparr>abort_path := Some outside_abort_path, is_abort_approval_requested := True\<rparr>"

subsection \<open>Invariants\<close>

text \<open>
  What resetting the module establishes and every member function keeps: an approved
  abort path is there, and so is the abort path of the Abort sub-state.
\<close>

definition abort_path_invariant :: "Module \<Rightarrow> bool" where
  "abort_path_invariant m \<longleftrightarrow>
     (is_abort_path_approved m \<longrightarrow> abort_path m \<noteq> None)
     \<and> (current_lane_change_state m = Abort \<longrightarrow> abort_path m \<noteq> None)"

section \<open>Proofs\<close>

lemmas road_defs = road_config_def road_world_def road_module_def road_status_def
  road_avoidance_data_def road_planner_data_def road_route_handler_def road_lanelet_util_def
  road_path_util_def road_lane_change_util_def road_avoidance_util_def object_at_def
  candidate_def path_point_def default_LaneChangePath_def default_PathWithLaneId_def
  default_Pose_def default_ObjectData_def default_ConstLanelet_def default_TurnSignalInfo_def
  default_BehaviorModuleOutput_def default_CandidateOutput_def unsafe_world_def outside_world_def
  running_module_def aborting_module_def compensating_world_def no_abort_config_def
  old_architecture_config_def inactive_world_def bounded_world_def outside_abort_path_def
  approved_abort_module_def

lemmas base_defs = waitApproval_def clearWaitingApproval_def isWaitingApproval_def
  resetPathCandidate_def resetPathReference_def interface_call_def removeRTCStatus_def
  removePreviousRTCStatusLeft_def removePreviousRTCStatusRight_def updateRTCStatus_def
  waitApprovalLeft_def waitApprovalRight_def

subsection \<open>What each member function leaves unchanged\<close>

lemma getSafePath_keeps:
  "getSafePath c w m lanes d sp = (fl, sel, m') \<Longrightarrow>
     current_lane_change_state m' = current_lane_change_state m \<and> abort_path m' = abort_path m
     \<and> is_abort_path_approved m' = is_abort_path_approved m \<and> status m' = status m
     \<and> avoidance_data m' = avoidance_data m \<and> interface_calls m' = interface_calls m"
  by (auto simp: getSafePath_def Let_def split: if_splits prod.splits)

lemma isExecutionRequested_keeps:
  "isExecutionRequested c w m = Inr (b, m') \<Longrightarrow>
     current_lane_change_state m' = current_lane_change_state m \<and> abort_path m' = abort_path m
     \<and> is_abort_path_approved m' = is_abort_path_approved m \<and> status m' = status m"
  by (auto simp: isExecutionRequested_def Let_def split: if_splits prod.splits sum.splits
      dest: getSafePath_keeps)

lemma isExecutionReady_keeps:
  "isExecutionReady c w m = Inr (b, m') \<Longrightarrow>
     current_lane_change_state m' = current_lane_change_state m \<and> abort_path m' = abort_path m
     \<and> is_abort_path_approved m' = is_abort_path_approved m \<and> status m' = status m"
  by (auto simp: isExecutionReady_def Let_def split: if_splits prod.splits sum.splits
      dest: getSafePath_keeps)

lemma planCandidate_output_keeps:
  "planCandidate_output w m sp = (out, m') \<Longrightarrow>
     current_lane_change_state m' = current_lane_change_state m \<and> abort_path m' = abort_path m
     \<and> is_abort_path_approved m' = is_abort_path_approved m \<and> status m' = status m"
  by (auto simp: planCandidate_output_def Let_def updateSteeringFactorPtr_candidate_def base_defs
      split: if_splits)

lemma planCandidate_keeps:
  "planCandidate c w m = Inr (out, m') \<Longrightarrow>
     current_lane_change_state m' = current_lane_change_state m \<and> abort_path m' = abort_path m
     \<and> is_abort_path_approved m' = is_abort_path_approved m \<and> status m' = status m"
  by (auto simp: planCandidate_def Let_def split: sum.splits if_splits prod.splits option.splits
      dest!: getSafePath_keeps planCandidate_output_keeps)

lemma updateLaneChangeStatus_keeps:
  "updateLaneChangeStatus c w m = Inr m' \<Longrightarrow>
     current_lane_change_state m' = current_lane_change_state m \<and> abort_path m' = abort_path m
     \<and> is_abort_path_approved m' = is_abort_path_approved m
     \<and> is_valid_path (status m') = is_valid_path (status m)"
  by (auto simp: updateLaneChangeStatus_def Let_def split: sum.splits prod.splits
      dest!: getSafePath_keeps)

lemma createObjectData_keeps:
  "createObjectData c w m data ob = Inr (d, m') \<Longrightarrow>
     current_lane_change_state m' = current_lane_change_state m \<and> abort_path m' = abort_path m
     \<and> is_abort_path_approved m' = is_abort_path_approved m \<and> status m' = status m"
  by (auto simp: createObjectData_def Let_def split: if_splits prod.splits)

lemma createObjectData_each_keeps:
  "createObjectData_each c w m data obs = Inr (ds, m') \<Longrightarrow>
     current_lane_change_state m' = current_lane_change_state m \<and> abort_path m' = abort_path m
     \<and> is_abort_path_approved m' = is_abort_path_approved m \<and> status m' = status m"
proof (induction obs arbitrary: m ds)
  case Nil
  then show ?case by simp
next
  case (Cons ob obs)
  then show ?case
    by (fastforce split: sum.splits prod.splits dest!: createObjectData_keeps)
qed

lemma updateData_keeps:
  "updateData c w m = Inr m' \<Longrightarrow>
     current_lane_change_state m' = current_lane_change_state m \<and> abort_path m' = abort_path m
     \<and> is_abort_path_approved m' = is_abort_path_approved m \<and> status m' = status m"
  by (auto simp: updateData_def calcAvoidancePlanningData_def fillAvoidanceTargetObjects_def
      Let_def split: sum.splits prod.splits dest!: createObjectData_each_keeps)


subsection \<open>Planning: the abort path is read only where it is set\<close>

lemma isAbortState_iff:
  "isAbortState c m \<longleftrightarrow>
     enable_abort_lane_change c \<and> current_lane_change_state m = Abort \<and> abort_path m \<noteq> None"
  by (simp add: isAbortState_def)

lemma isAbortState_cong:
  "current_lane_change_state m' = current_lane_change_state m \<Longrightarrow> abort_path m' = abort_path m
   \<Longrightarrow> isAbortState c m' = isAbortState c m"
  by (simp add: isAbortState_def)

lemma plan_publish_keeps:
  "plan_publish c w m p = Inr (out, m') \<Longrightarrow>
     current_lane_change_state m' = current_lane_change_state m \<and> abort_path m' = abort_path m
     \<and> is_abort_path_approved m' = is_abort_path_approved m \<and> status m' = status m
     \<and> is_abort_approval_requested m' = is_abort_approval_requested m
     \<and> uuid_map m' = uuid_map m
     \<and> out_path out = Some (generateExtendedDrivableArea c w m p)"
  by (auto simp: plan_publish_def Let_def updateSteeringFactorPtr_def updateOutputTurnSignal_def
      base_defs split: if_splits prod.splits)

lemma resetPathIfAbort_keeps:
  "resetPathIfAbort c w m = Inr m' \<Longrightarrow>
     current_lane_change_state m' = current_lane_change_state m \<and> abort_path m' = abort_path m
     \<and> status m' = status m \<and> is_activated m' = is_activated m
     \<and> is_abort_approval_requested m'"
  by (auto simp: resetPathIfAbort_def Let_def base_defs split: if_splits option.splits)

lemma plan_valid_keeps:
  "plan_valid c w m p = Inr (out, m') \<Longrightarrow>
     current_lane_change_state m' = current_lane_change_state m \<and> abort_path m' = abort_path m
     \<and> status m' = status m
     \<and> (is_abort_path_approved m' \<longrightarrow> is_abort_path_approved m \<or> abort_path m \<noteq> None)"
proof (cases "isAbortState c m")
  case False
  assume "plan_valid c w m p = Inr (out, m')"
  with False show ?thesis
    by (auto simp: plan_valid_def Let_def dest!: plan_publish_keeps)
next
  case True
  assume A: "plan_valid c w m p = Inr (out, m')"
  from True have ap: "abort_path m \<noteq> None" by (simp add: isAbortState_iff)
  from A True obtain m1 p' where R: "resetPathIfAbort c w m = Inr m1"
    and P: "plan_publish c w m1 p' = Inr (out, m')"
    by (auto simp: plan_valid_def Let_def split: sum.splits if_splits option.splits)
  from resetPathIfAbort_keeps[OF R] plan_publish_keeps[OF P] ap show ?thesis by simp
qed

lemma plan_keeps:
  "plan c w m = Inr (out, m') \<Longrightarrow>
     current_lane_change_state m' = current_lane_change_state m \<and> abort_path m' = abort_path m
     \<and> (is_abort_path_approved m' \<longrightarrow> is_abort_path_approved m \<or> abort_path m \<noteq> None)"
  by (auto simp: plan_def Let_def base_defs split: if_splits dest!: plan_valid_keeps)

lemma getLaneChangeLanes_fault:
  "getLaneChangeLanes c w m cl l = Inl e \<Longrightarrow> e = FrontOfEmptyVector"
  by (auto simp: getLaneChangeLanes_def Let_def split: if_splits)

lemma plan_publish_fault:
  "plan_publish c w m p = Inl e \<Longrightarrow> e = FrontOfEmptyVector"
  by (auto simp: plan_publish_def Let_def split: if_splits)

lemma resetPathIfAbort_no_null:
  "abort_path m \<noteq> None \<Longrightarrow> resetPathIfAbort c w m \<noteq> Inl NullPointer"
  by (auto simp: resetPathIfAbort_def Let_def split: if_splits option.splits)

lemma plan_valid_no_null: "plan_valid c w m p \<noteq> Inl NullPointer"
proof (cases "isAbortState c m")
  case False
  then show ?thesis by (auto simp: plan_valid_def Let_def dest!: plan_publish_fault)
next
  case True
  then have ap: "abort_path m \<noteq> None" by (simp add: isAbortState_iff)
  show ?thesis
  proof (cases "resetPathIfAbort c w m")
    case (Inl e)
    with resetPathIfAbort_no_null[OF ap, of c w] True show ?thesis
      by (simp add: plan_valid_def Let_def)
  next
    case (Inr m1)
    from resetPathIfAbort_keeps[OF Inr] ap have "abort_path m1 \<noteq> None" by simp
    with Inr True show ?thesis
      by (auto simp: plan_valid_def Let_def dest!: plan_publish_fault)
  qed
qed

lemma plan_no_null: "plan c w m \<noteq> Inl NullPointer"
  by (simp add: plan_def Let_def plan_valid_no_null)

lemma planCandidate_no_null: "planCandidate c w m \<noteq> Inl NullPointer"
  by (auto simp: planCandidate_def Let_def isAbortState_iff
      split: if_splits sum.splits option.splits prod.splits
      dest!: getLaneChangeLanes_fault getSafePath_keeps)

lemma updateLaneChangeStatus_fault:
  "updateLaneChangeStatus c w m = Inl e \<Longrightarrow> e = FrontOfEmptyVector"
  by (auto simp: updateLaneChangeStatus_def Let_def split: sum.splits prod.splits
      dest!: getLaneChangeLanes_fault)

lemma planWaitingApproval_no_null: "planWaitingApproval c w m \<noteq> Inl NullPointer"
  using planCandidate_no_null
  by (auto simp: planWaitingApproval_def Let_def split: if_splits sum.splits prod.splits
      dest!: updateLaneChangeStatus_fault)

lemma isApprovedPathSafe_fault:
  "isApprovedPathSafe c w m = Inl e \<Longrightarrow> e = FrontOfEmptyVector"
  by (auto simp: isApprovedPathSafe_def Let_def split: if_splits)

lemma isAbortConditionSatisfied_no_null: "isAbortConditionSatisfied c w m \<noteq> Inl NullPointer"
  by (auto simp: isAbortConditionSatisfied_def Let_def split: if_splits sum.splits prod.splits
      option.splits dest!: isApprovedPathSafe_fault)

lemma updateState_no_null: "updateState c w m \<noteq> Inl NullPointer"
  using isAbortConditionSatisfied_no_null
  by (auto simp: updateState_def updateState_abort_and_finish_def return_state_def Let_def
      split: if_splits sum.splits prod.splits)

lemma createObjectData_each_fault:
  "createObjectData_each c w m data obs = Inl e \<Longrightarrow> e = AtOutOfRange"
proof (induction obs arbitrary: m)
  case Nil
  then show ?case by simp
next
  case (Cons ob obs)
  then show ?case
    by (auto simp: createObjectData_def Let_def split: sum.splits prod.splits if_splits)
qed

lemma updateData_no_null: "updateData c w m \<noteq> Inl NullPointer"
  by (auto simp: updateData_def calcAvoidancePlanningData_def fillAvoidanceTargetObjects_def
      Let_def split: sum.splits prod.splits dest!: createObjectData_each_fault)

lemma isExecutionRequested_no_null: "isExecutionRequested c w m \<noteq> Inl NullPointer"
  by (auto simp: isExecutionRequested_def Let_def split: sum.splits prod.splits if_splits
      dest!: getLaneChangeLanes_fault)

lemma isExecutionReady_no_null: "isExecutionReady c w m \<noteq> Inl NullPointer"
  by (auto simp: isExecutionReady_def Let_def split: sum.splits prod.splits if_splits
      dest!: getLaneChangeLanes_fault)

lemma processOnEntry_no_null: "processOnEntry c w m \<noteq> Inl NullPointer"
  by (auto simp: processOnEntry_def Let_def dest!: updateLaneChangeStatus_fault)

lemma map_sum_Inl_iff: "map_sum id f x = Inl e \<longleftrightarrow> x = Inl e"
  by (cases x) auto

lemma map_sum_Inr_snd: "map_sum id snd x = Inr m' \<longleftrightarrow> (\<exists>r. x = Inr (r, m'))"
  by (cases x) auto

lemma call_no_null: "call c w f m \<noteq> Inl NullPointer"
  by (cases f)
    (simp_all add: map_sum_Inl_iff processOnEntry_no_null isExecutionRequested_no_null
      isExecutionReady_no_null updateData_no_null updateState_no_null plan_no_null
      planCandidate_no_null planWaitingApproval_no_null)

lemma run_no_null: "run c calls m \<noteq> Inl NullPointer"
proof (induction calls arbitrary: m)
  case Nil
  show ?case by simp
next
  case (Cons a calls)
  obtain w f where a: "a = (w, f)" by (cases a)
  show ?case using Cons call_no_null[of c w f m] by (auto simp: a split: sum.splits)
qed


subsection \<open>The abort sub-state over runs\<close>

lemma isAbortConditionSatisfied_keeps:
  "isAbortConditionSatisfied c w m = Inr (b, m') \<Longrightarrow>
     status m' = status m \<and> is_abort_path_approved m' = is_abort_path_approved m"
  by (auto simp: isAbortConditionSatisfied_def Let_def
      split: if_splits sum.splits prod.splits option.splits)

lemma isAbortConditionSatisfied_disabled:
  "\<not> enable_abort_lane_change c \<Longrightarrow> isAbortConditionSatisfied c w m = Inr (b, m') \<Longrightarrow>
     current_lane_change_state m' \<in> {Normal, Cancel, Stop}"
  by (auto simp: isAbortConditionSatisfied_def Let_def
      split: if_splits sum.splits prod.splits option.splits)

lemma isAbortConditionSatisfied_invariant:
  "abort_path_invariant m \<Longrightarrow> isAbortConditionSatisfied c w m = Inr (b, m') \<Longrightarrow>
     abort_path_invariant m'"
  by (auto simp: isAbortConditionSatisfied_def Let_def abort_path_invariant_def
      split: if_splits sum.splits prod.splits option.splits)

lemma updateState_abort_and_finish_result:
  "updateState_abort_and_finish c w m = Inr (s, m') \<Longrightarrow>
     (\<exists>m1. m' = m1\<lparr>current_state := s\<rparr>
        \<and> (m1 = m \<or> (\<exists>b. isAbortConditionSatisfied c w m = Inr (b, m1))))"
  by (auto simp: updateState_abort_and_finish_def return_state_def Let_def
      split: if_splits sum.splits prod.splits)

lemma updateState_result:
  "updateState c w m = Inr (s, m') \<Longrightarrow>
     (\<exists>m1. m' = m1\<lparr>current_state := s\<rparr>
        \<and> (m1 = m \<or> (\<exists>b. isAbortConditionSatisfied c w m = Inr (b, m1))))"
  by (auto simp: updateState_def return_state_def Let_def
      split: if_splits dest!: updateState_abort_and_finish_result)

lemma updateState_keeps:
  "updateState c w m = Inr (s, m') \<Longrightarrow> status m' = status m"
  by (auto dest!: updateState_result isAbortConditionSatisfied_keeps)

lemma updateState_disabled:
  "\<not> enable_abort_lane_change c \<Longrightarrow> current_lane_change_state m \<noteq> Abort \<Longrightarrow>
   updateState c w m = Inr (s, m') \<Longrightarrow> current_lane_change_state m' \<noteq> Abort"
  by (auto dest!: updateState_result dest: isAbortConditionSatisfied_disabled)

lemma updateState_invariant:
  assumes "abort_path_invariant m" "updateState c w m = Inr (s, m')"
  shows "abort_path_invariant m'"
proof -
  from updateState_result[OF assms(2)] obtain m1 where m': "m' = m1\<lparr>current_state := s\<rparr>"
    and d: "m1 = m \<or> (\<exists>b. isAbortConditionSatisfied c w m = Inr (b, m1))" by blast
  from d assms(1) have "abort_path_invariant m1"
    by (auto dest: isAbortConditionSatisfied_invariant)
  then show ?thesis by (simp add: m' abort_path_invariant_def)
qed

lemma planWaitingApproval_keeps:
  "planWaitingApproval c w m = Inr (out, m') \<Longrightarrow>
     current_lane_change_state m' = current_lane_change_state m \<and> abort_path m' = abort_path m
     \<and> \<not> is_abort_path_approved m'
     \<and> is_valid_path (status m') = is_valid_path (status m)"
  by (auto simp: planWaitingApproval_def Let_def base_defs
      split: if_splits sum.splits prod.splits
      dest!: updateLaneChangeStatus_keeps planCandidate_keeps)

lemma processOnEntry_keeps:
  "processOnEntry c w m = Inr m' \<Longrightarrow>
     current_lane_change_state m' = Normal \<and> abort_path m' = abort_path m
     \<and> is_abort_path_approved m' = is_abort_path_approved m
     \<and> is_valid_path (status m') = is_valid_path (status m)"
  by (auto simp: processOnEntry_def Let_def base_defs split: if_splits
      dest!: updateLaneChangeStatus_keeps)

lemma call_disabled:
  assumes "\<not> enable_abort_lane_change c" "current_lane_change_state m \<noteq> Abort"
    "call c w f m = Inr m'"
  shows "current_lane_change_state m' \<noteq> Abort"
proof (cases f)
  case ProcessOnEntry
  with assms show ?thesis by (auto dest!: processOnEntry_keeps)
next
  case ProcessOnExit
  with assms show ?thesis by (auto simp: processOnExit_def resetParameters_def base_defs)
next
  case IsExecutionRequested
  with assms show ?thesis by (auto simp: map_sum_Inr_snd dest!: isExecutionRequested_keeps)
next
  case IsExecutionReady
  with assms show ?thesis by (auto simp: map_sum_Inr_snd dest!: isExecutionReady_keeps)
next
  case UpdateData
  with assms show ?thesis by (auto dest!: updateData_keeps)
next
  case UpdateState
  with assms show ?thesis by (auto simp: map_sum_Inr_snd dest: updateState_disabled)
next
  case Plan
  with assms show ?thesis by (auto simp: map_sum_Inr_snd dest!: plan_keeps)
next
  case PlanCandidate
  with assms show ?thesis by (auto simp: map_sum_Inr_snd dest!: planCandidate_keeps)
next
  case PlanWaitingApproval
  with assms show ?thesis by (auto simp: map_sum_Inr_snd dest!: planWaitingApproval_keeps)
qed

lemma run_disabled:
  "\<not> enable_abort_lane_change c \<Longrightarrow> current_lane_change_state m \<noteq> Abort \<Longrightarrow>
   run c calls m = Inr m' \<Longrightarrow> current_lane_change_state m' \<noteq> Abort"
proof (induction calls arbitrary: m)
  case Nil
  then show ?case by simp
next
  case (Cons a calls)
  obtain w f where a: "a = (w, f)" by (cases a)
  from Cons.prems(3) obtain m1 where m1: "call c w f m = Inr m1" and r: "run c calls m1 = Inr m'"
    by (auto simp: a split: sum.splits)
  from call_disabled[OF Cons.prems(1,2) m1] have "current_lane_change_state m1 \<noteq> Abort" .
  from Cons.IH[OF Cons.prems(1) this r] show ?case .
qed

lemma call_invariant:
  assumes "abort_path_invariant m" "call c w f m = Inr m'"
  shows "abort_path_invariant m'"
proof (cases f)
  case ProcessOnEntry
  with assms show ?thesis by (auto simp: abort_path_invariant_def dest!: processOnEntry_keeps)
next
  case ProcessOnExit
  with assms show ?thesis
    by (auto simp: abort_path_invariant_def processOnExit_def resetParameters_def base_defs)
next
  case IsExecutionRequested
  with assms show ?thesis
    by (auto simp: abort_path_invariant_def map_sum_Inr_snd dest!: isExecutionRequested_keeps)
next
  case IsExecutionReady
  with assms show ?thesis
    by (auto simp: abort_path_invariant_def map_sum_Inr_snd dest!: isExecutionReady_keeps)
next
  case UpdateData
  with assms show ?thesis by (auto simp: abort_path_invariant_def dest!: updateData_keeps)
next
  case UpdateState
  with assms show ?thesis by (auto simp: map_sum_Inr_snd dest: updateState_invariant)
next
  case Plan
  with assms show ?thesis
    by (auto simp: abort_path_invariant_def map_sum_Inr_snd dest!: plan_keeps)
next
  case PlanCandidate
  with assms show ?thesis
    by (auto simp: abort_path_invariant_def map_sum_Inr_snd dest!: planCandidate_keeps)
next
  case PlanWaitingApproval
  with assms show ?thesis
    by (auto simp: abort_path_invariant_def map_sum_Inr_snd dest!: planWaitingApproval_keeps)
qed

lemma run_invariant:
  "abort_path_invariant m \<Longrightarrow> run c calls m = Inr m' \<Longrightarrow> abort_path_invariant m'"
proof (induction calls arbitrary: m)
  case Nil
  then show ?case by simp
next
  case (Cons a calls)
  obtain w f where a: "a = (w, f)" by (cases a)
  from Cons.prems(2) obtain m1 where m1: "call c w f m = Inr m1" and r: "run c calls m1 = Inr m'"
    by (auto simp: a split: sum.splits)
  from Cons.IH[OF call_invariant[OF Cons.prems(1) m1] r] show ?case .
qed

lemma resetParameters_invariant: "abort_path_invariant (resetParameters m)"
  by (simp add: abort_path_invariant_def resetParameters_def base_defs)


subsection \<open>Sorting with a comparator\<close>

lemma set_sort_insert: "set (sort_insert cmp a xs) = insert a (set xs)"
  by (induction xs) auto

lemma mset_sort_insert: "mset (sort_insert cmp a xs) = add_mset a (mset xs)"
  by (induction xs) auto

lemma mset_std_sort: "mset (std_sort cmp xs) = mset xs"
  by (induction xs) (auto simp: mset_sort_insert)

lemma sorted_sort_insert:
  fixes f :: "'a \<Rightarrow> 'b::linorder"
  shows "sorted (map f xs) \<Longrightarrow> sorted (map f (sort_insert (\<lambda>a b. f a < f b) x xs))"
  by (induction xs) (auto simp: set_sort_insert)

lemma sorted_std_sort:
  fixes f :: "'a \<Rightarrow> 'b::linorder"
  shows "sorted (map f (std_sort (\<lambda>a b. f a < f b) xs))"
  by (induction xs) (auto simp: sorted_sort_insert)

subsection \<open>The request gate\<close>

lemma front_below_margin:
  assumes "current_state m \<noteq> RUNNING" "target_objects (avoidance_data m) \<noteq> []"
   "longitudinal (hd (target_objects (avoidance_data m))) < execute_object_longitudinal_margin c"
  shows "\<exists>m'. isExecutionRequested c w m = Inr (False, m')"
proof -
  have "\<exists>lanes. getLaneChangeLanes c w m (current_lanes_of c w) (lane_change_lane_length c) = Inr lanes"
    using assms(2) by (simp add: getLaneChangeLanes_def Let_def)
  then obtain lanes where L: "getLaneChangeLanes c w m (current_lanes_of c w) (lane_change_lane_length c) = Inr lanes" ..
  obtain v s sel m1 where G: "getSafePath c w m lanes (check_distance c) default_LaneChangePath = ((v, s), sel, m1)"
    by (metis prod.exhaust)
  have A: "avoidance_data m1 = avoidance_data m" using getSafePath_keeps[OF G] by simp
  show ?thesis using assms L G A
    by (simp add: isExecutionRequested_def Let_def)
qed

subsection \<open>Path validity\<close>

lemma points_in_lanelets_iff:
  "points_in_lanelets inside ls pts \<longleftrightarrow> (\<forall>pt\<in>set pts. \<exists>l\<in>set ls. inside (pose pt) l)"
  by (induction pts) (auto simp: list_ex_iff Let_def)

lemma isValidPath_of_iff:
  "isValidPath_of c w m p \<longleftrightarrow>
     (\<forall>pt\<in>set (points p). \<exists>l\<in>set (expanded_drivable_lanelets c w m).
        isInLanelet (lanelet_util w) (pose pt) l)
     \<and> checkPathRelativeAngle (path_util w) p pi"
  by (auto simp: isValidPath_of_def Let_def points_in_lanelets_iff)

lemma expanded_drivable_lanelets_status:
  "status m' = status m \<Longrightarrow> expanded_drivable_lanelets c w m' = expanded_drivable_lanelets c w m"
  by (simp add: expanded_drivable_lanelets_def)

lemma isValidPath_of_status:
  "status m' = status m \<Longrightarrow> isValidPath_of c w m' p = isValidPath_of c w m p"
  by (simp add: isValidPath_of_def expanded_drivable_lanelets_def)

lemma plan_invalid:
  assumes "\<not> isValidPath_of c w m (path (lane_change_path (status m)))"
  shows "plan c w m =
     Inr (default_BehaviorModuleOutput,
          ((resetPathReference (resetPathCandidate m))
             \<lparr>is_activated := isActivated (planner_data w)\<rparr>)
             \<lparr>status := (status m)\<lparr>is_valid_path := False\<rparr>\<rparr>)"
proof -
  have "isValidPath_of c w ((resetPathReference (resetPathCandidate m))
             \<lparr>is_activated := isActivated (planner_data w)\<rparr>) (path (lane_change_path (status m)))
      = isValidPath_of c w m (path (lane_change_path (status m)))"
    by (rule isValidPath_of_status) (simp add: resetPathReference_def resetPathCandidate_def)
  with assms show ?thesis
    by (simp add: plan_def Let_def resetPathReference_def resetPathCandidate_def)
qed

lemma call_keeps_validity:
  assumes "f \<noteq> Plan" "call c w f m = Inr m'"
  shows "is_valid_path (status m') = is_valid_path (status m)"
proof (cases f)
  case ProcessOnEntry
  with assms show ?thesis by (auto dest!: processOnEntry_keeps)
next
  case ProcessOnExit
  with assms show ?thesis by (auto simp: processOnExit_def resetParameters_def base_defs)
next
  case IsExecutionRequested
  with assms show ?thesis by (auto simp: map_sum_Inr_snd dest!: isExecutionRequested_keeps)
next
  case IsExecutionReady
  with assms show ?thesis by (auto simp: map_sum_Inr_snd dest!: isExecutionReady_keeps)
next
  case UpdateData
  with assms show ?thesis by (auto dest!: updateData_keeps)
next
  case UpdateState
  with assms show ?thesis by (auto simp: map_sum_Inr_snd dest!: updateState_keeps)
next
  case Plan
  with assms show ?thesis by simp
next
  case PlanCandidate
  with assms show ?thesis by (auto simp: map_sum_Inr_snd dest!: planCandidate_keeps)
next
  case PlanWaitingApproval
  with assms show ?thesis by (auto simp: map_sum_Inr_snd dest!: planWaitingApproval_keeps)
qed

lemma run_keeps_validity:
  "Plan \<notin> snd ` set calls \<Longrightarrow> run c calls m = Inr m'
   \<Longrightarrow> is_valid_path (status m') = is_valid_path (status m)"
proof (induction calls arbitrary: m)
  case Nil
  then show ?case by simp
next
  case (Cons a calls)
  obtain w f where a: "a = (w, f)" by (cases a)
  from Cons.prems(2) obtain m1 where m1: "call c w f m = Inr m1" and r: "run c calls m1 = Inr m'"
    by (auto simp: a split: sum.splits)
  from Cons.prems(1) have f: "f \<noteq> Plan" and rest: "Plan \<notin> snd ` set calls"
    by (auto simp: a)
  from call_keeps_validity[OF f m1] Cons.IH[OF rest r] show ?case by simp
qed

lemma updateState_invalid:
  "\<not> is_valid_path (status m) \<Longrightarrow> updateState c w m = Inr (SUCCESS, m\<lparr>current_state := SUCCESS\<rparr>)"
  by (simp add: updateState_def isValidPath_def return_state_def)

subsection \<open>Planning in the Abort sub-state\<close>

lemma plan_publish_calls:
  "plan_publish c w m p = Inr (out, m') \<Longrightarrow>
     \<exists>rest. interface_calls m' = interface_calls m @ rest
        \<and> set rest \<inter> {RemoveRTCStatus, RemovePreviousRTCStatusLeft, RemovePreviousRTCStatusRight} = {}"
  by (auto simp: plan_publish_def Let_def updateSteeringFactorPtr_def updateOutputTurnSignal_def
      base_defs split: if_splits prod.splits)

lemma resetPathIfAbort_first:
  assumes "\<not> is_abort_approval_requested m" "abort_path m = Some ap"
    "resetPathIfAbort c w m = Inr m1"
  shows "\<not> is_abort_path_approved m1 \<and> is_abort_approval_requested m1
     \<and> (\<not> USE_OLD_ARCHITECTURE c \<longrightarrow>
           interface_calls m1 = interface_calls m @ [RemoveRTCStatus] \<and> uuid_map m1 = uuid_map m)
     \<and> (USE_OLD_ARCHITECTURE c \<and> 0 < getLateralShift (lane_change_util w) ap \<longrightarrow>
           interface_calls m1 = interface_calls m @ [RemovePreviousRTCStatusRight]
           \<and> uuid_map m1 = (uuid_map m)(''right'' \<mapsto> generateUUID (planner_data w)))
     \<and> (USE_OLD_ARCHITECTURE c \<and> getLateralShift (lane_change_util w) ap < 0 \<longrightarrow>
           interface_calls m1 = interface_calls m @ [RemovePreviousRTCStatusLeft]
           \<and> uuid_map m1 = (uuid_map m)(''left'' \<mapsto> generateUUID (planner_data w)))
     \<and> (USE_OLD_ARCHITECTURE c \<and> getLateralShift (lane_change_util w) ap = 0 \<longrightarrow>
           interface_calls m1 = interface_calls m \<and> uuid_map m1 = uuid_map m)"
  using assms
  by (auto simp: resetPathIfAbort_def Let_def base_defs split: if_splits)

lemma resetPathIfAbort_later:
  assumes "is_abort_approval_requested m" "resetPathIfAbort c w m = Inr m1"
  shows "is_abort_path_approved m1 = isActivated (planner_data w)
     \<and> interface_calls m1 = interface_calls m \<and> uuid_map m1 = uuid_map m"
  using assms
  by (auto simp: resetPathIfAbort_def Let_def base_defs split: if_splits)

lemma generateExtendedDrivableArea_status:
  "status m' = status m \<Longrightarrow>
     generateExtendedDrivableArea c w m' p = generateExtendedDrivableArea c w m p"
  by (simp add: generateExtendedDrivableArea_def)

lemma plan_valid_abort:
  assumes A: "isAbortState c m" and ap: "abort_path m = Some ap"
    and P: "plan_valid c w m p0 = Inr (out, m')"
  shows "\<exists>m1. resetPathIfAbort c w m = Inr m1
           \<and> plan_publish c w m1
                (if is_activated m then path ap
                 else if is_abort_condition_satisfied m \<and> isNearEndOfLane w m
                         \<and> isCurrentVelocityLow w
                      then insertStopPoint (path_util w) 0.1 p0 else p0) = Inr (out, m')"
proof (cases "resetPathIfAbort c w m")
  case (Inl e)
  with A P show ?thesis by (simp add: plan_valid_def Let_def)
next
  case (Inr m1)
  from resetPathIfAbort_keeps[OF Inr] ap
  have "abort_path m1 = Some ap" "is_activated m1 = is_activated m" by simp_all
  with A P Inr show ?thesis by (auto simp: plan_valid_def Let_def split: if_splits)
qed

lemma plan_valid_abort_output:
  assumes A: "isAbortState c m" and ap: "abort_path m = Some ap"
    and P: "plan_valid c w m p0 = Inr (out, m')"
  shows "out_path out = Some (generateExtendedDrivableArea c w m
            (if is_activated m then path ap
             else if is_abort_condition_satisfied m \<and> isNearEndOfLane w m
                     \<and> isCurrentVelocityLow w
                  then insertStopPoint (path_util w) 0.1 p0 else p0))
     \<and> is_abort_approval_requested m'
     \<and> (\<not> is_abort_approval_requested m \<longrightarrow>
          \<not> is_abort_path_approved m'
          \<and> (\<not> USE_OLD_ARCHITECTURE c \<longrightarrow>
                (\<exists>rest. interface_calls m' = interface_calls m @ RemoveRTCStatus # rest)
                \<and> uuid_map m' = uuid_map m)
          \<and> (USE_OLD_ARCHITECTURE c \<and> 0 < getLateralShift (lane_change_util w) ap \<longrightarrow>
                (\<exists>rest. interface_calls m'
                           = interface_calls m @ RemovePreviousRTCStatusRight # rest)
                \<and> uuid_map m' = (uuid_map m)(''right'' \<mapsto> generateUUID (planner_data w)))
          \<and> (USE_OLD_ARCHITECTURE c \<and> getLateralShift (lane_change_util w) ap < 0 \<longrightarrow>
                (\<exists>rest. interface_calls m'
                           = interface_calls m @ RemovePreviousRTCStatusLeft # rest)
                \<and> uuid_map m' = (uuid_map m)(''left'' \<mapsto> generateUUID (planner_data w))))
     \<and> (is_abort_approval_requested m \<longrightarrow>
          is_abort_path_approved m' = isActivated (planner_data w)
          \<and> uuid_map m' = uuid_map m
          \<and> (\<exists>rest. interface_calls m' = interface_calls m @ rest
                \<and> set rest \<inter> {RemoveRTCStatus, RemovePreviousRTCStatusLeft,
                                 RemovePreviousRTCStatusRight} = {}))"
proof -
  from plan_valid_abort[OF A ap P] obtain m1 where
    R: "resetPathIfAbort c w m = Inr m1"
    and Pub: "plan_publish c w m1
                (if is_activated m then path ap
                 else if is_abort_condition_satisfied m \<and> isNearEndOfLane w m
                         \<and> isCurrentVelocityLow w
                      then insertStopPoint (path_util w) 0.1 p0 else p0) = Inr (out, m')"
    by blast
  note K = resetPathIfAbort_keeps[OF R]
  note PK = plan_publish_keeps[OF Pub]
  from plan_publish_calls[OF Pub] obtain rest where
    rest: "interface_calls m' = interface_calls m1 @ rest"
      "set rest \<inter> {RemoveRTCStatus, RemovePreviousRTCStatusLeft, RemovePreviousRTCStatusRight} = {}"
    by blast
  have out: "out_path out = Some (generateExtendedDrivableArea c w m
            (if is_activated m then path ap
             else if is_abort_condition_satisfied m \<and> isNearEndOfLane w m
                     \<and> isCurrentVelocityLow w
                  then insertStopPoint (path_util w) 0.1 p0 else p0))"
    using PK K generateExtendedDrivableArea_status[of m1 m c w] by simp
  have req: "is_abort_approval_requested m'" using PK K by simp
  have first: "\<not> is_abort_path_approved m'
          \<and> (\<not> USE_OLD_ARCHITECTURE c \<longrightarrow>
                (\<exists>rest. interface_calls m' = interface_calls m @ RemoveRTCStatus # rest)
                \<and> uuid_map m' = uuid_map m)
          \<and> (USE_OLD_ARCHITECTURE c \<and> 0 < getLateralShift (lane_change_util w) ap \<longrightarrow>
                (\<exists>rest. interface_calls m'
                           = interface_calls m @ RemovePreviousRTCStatusRight # rest)
                \<and> uuid_map m' = (uuid_map m)(''right'' \<mapsto> generateUUID (planner_data w)))
          \<and> (USE_OLD_ARCHITECTURE c \<and> getLateralShift (lane_change_util w) ap < 0 \<longrightarrow>
                (\<exists>rest. interface_calls m'
                           = interface_calls m @ RemovePreviousRTCStatusLeft # rest)
                \<and> uuid_map m' = (uuid_map m)(''left'' \<mapsto> generateUUID (planner_data w)))"
    if n: "\<not> is_abort_approval_requested m"
    using resetPathIfAbort_first[OF n ap R] PK rest(1) by simp
  have later: "is_abort_path_approved m' = isActivated (planner_data w)
          \<and> uuid_map m' = uuid_map m
          \<and> (\<exists>rest. interface_calls m' = interface_calls m @ rest
                \<and> set rest \<inter> {RemoveRTCStatus, RemovePreviousRTCStatusLeft,
                                 RemovePreviousRTCStatusRight} = {})"
    if y: "is_abort_approval_requested m"
    using resetPathIfAbort_later[OF y R] PK rest by simp
  from out req first later show ?thesis by blast
qed


text \<open>
  What \<^verbatim>\<open>plan\<close> does in the Abort sub-state when it finds the lane change path valid
  and returns. It publishes the abort path when the member \<^verbatim>\<open>is_activated_\<close>, read at
  the start of the call, is true, and the lane change path otherwise. When the approval of
  the abort was not requested before, the registration is removed in this very call, after
  \<^verbatim>\<open>is_activated_\<close> was read.
\<close>

lemma plan_in_abort_state:
  assumes A: "isAbortState c m" and ap: "abort_path m = Some ap"
    and V: "isValidPath_of c w m (path (lane_change_path (status m)))"
    and P: "plan c w m = Inr (out, m')"
  shows "out_path out = Some (generateExtendedDrivableArea c w m
            (if isActivated (planner_data w) then path ap
             else if is_abort_condition_satisfied m \<and> isNearEndOfLane w m
                     \<and> isCurrentVelocityLow w
                  then insertStopPoint (path_util w) 0.1 (path (lane_change_path (status m)))
                  else path (lane_change_path (status m))))
     \<and> is_abort_approval_requested m'
     \<and> (\<not> is_abort_approval_requested m \<longrightarrow>
          \<not> is_abort_path_approved m'
          \<and> (\<not> USE_OLD_ARCHITECTURE c \<longrightarrow>
                (\<exists>rest. interface_calls m' = interface_calls m @ RemoveRTCStatus # rest)
                \<and> uuid_map m' = uuid_map m)
          \<and> (USE_OLD_ARCHITECTURE c \<and> 0 < getLateralShift (lane_change_util w) ap \<longrightarrow>
                (\<exists>rest. interface_calls m'
                           = interface_calls m @ RemovePreviousRTCStatusRight # rest)
                \<and> uuid_map m' = (uuid_map m)(''right'' \<mapsto> generateUUID (planner_data w)))
          \<and> (USE_OLD_ARCHITECTURE c \<and> getLateralShift (lane_change_util w) ap < 0 \<longrightarrow>
                (\<exists>rest. interface_calls m'
                           = interface_calls m @ RemovePreviousRTCStatusLeft # rest)
                \<and> uuid_map m' = (uuid_map m)(''left'' \<mapsto> generateUUID (planner_data w))))
     \<and> (is_abort_approval_requested m \<longrightarrow>
          is_abort_path_approved m' = isActivated (planner_data w)
          \<and> uuid_map m' = uuid_map m
          \<and> (\<exists>rest. interface_calls m' = interface_calls m @ rest
                \<and> set rest \<inter> {RemoveRTCStatus, RemovePreviousRTCStatusLeft,
                                 RemovePreviousRTCStatusRight} = {}))"
proof -
  let ?m1 = "(resetPathReference (resetPathCandidate m))
               \<lparr>is_activated := isActivated (planner_data w)\<rparr>"
  let ?m2 = "?m1\<lparr>status := (status ?m1)\<lparr>is_valid_path := True\<rparr>\<rparr>"
  have "isValidPath_of c w ?m1 (path (lane_change_path (status m)))
          = isValidPath_of c w m (path (lane_change_path (status m)))"
    by (rule isValidPath_of_status) (simp add: base_defs)
  with V have V1: "isValidPath_of c w ?m1 (path (lane_change_path (status ?m1)))"
    by (simp add: base_defs)
  from P V1 have PV: "plan_valid c w ?m2 (path (lane_change_path (status m))) = Inr (out, m')"
    by (simp add: plan_def Let_def base_defs)
  from A have A2: "isAbortState c ?m2" by (simp add: isAbortState_iff base_defs)
  from ap have ap2: "abort_path ?m2 = Some ap" by (simp add: base_defs)
  have F: "is_activated ?m2 = isActivated (planner_data w)"
    "is_abort_condition_satisfied ?m2 = is_abort_condition_satisfied m"
    "is_abort_approval_requested ?m2 = is_abort_approval_requested m"
    "interface_calls ?m2 = interface_calls m"
    "uuid_map ?m2 = uuid_map m"
    by (simp_all add: base_defs)
  have G: "generateExtendedDrivableArea c w ?m2 = generateExtendedDrivableArea c w m"
    by (rule ext) (simp add: generateExtendedDrivableArea_def base_defs)
  have N: "isNearEndOfLane w ?m2 = isNearEndOfLane w m"
    by (simp add: isNearEndOfLane_def base_defs)
  from plan_valid_abort_output[OF A2 ap2 PV, unfolded F G N] show ?thesis .
qed

lemma abort_path_published_in_entering_call:
  assumes "isAbortState c m" and "abort_path m = Some ap"
    and "isValidPath_of c w m (path (lane_change_path (status m)))"
    and "\<not> is_abort_approval_requested m" and "isActivated (planner_data w)"
    and "plan c w m = Inr (out, m')"
  shows "out_path out = Some (generateExtendedDrivableArea c w m (path ap))
       \<and> \<not> is_abort_path_approved m'"
  using plan_in_abort_state[OF assms(1,2,3,6)] assms(4,5) by simp

section \<open>The claims\<close>

subsection \<open>C1\<close>

text \<open>
  C1. Whenever \<^verbatim>\<open>getSafePath\<close> generates candidates (the lane change lanes and the
  target objects are not empty), the member \<^verbatim>\<open>debug_valid_path_\<close> holds the generated
  list. If that list is not empty, the path is reported valid, and the selected path is
  the last candidate when the safety flag is true and the first when it is false. If the
  list is empty, the validity flag is false.
\<close>

theorem getSafePath_selection:
  assumes "getSafePath c w m lanes d sp = ((found_valid, found_safe), selected, m')"
    and "lanes \<noteq> []" and "target_objects (avoidance_data m) \<noteq> []"
  shows "debug_valid_path m' =
           snd (if USE_OLD_ARCHITECTURE c
                then getLaneChangePaths_old (lane_change_util w) (current_lanes_of c w) lanes d
                else getLaneChangePaths (lane_change_util w) (previous_path (planner_data w))
                       (current_lanes_of c w) lanes d
                       (if isOnRight (avoidance_util w) (hd (target_objects (avoidance_data m)))
                        then LEFT else RIGHT))
       \<and> (debug_valid_path m' \<noteq> [] \<longrightarrow>
            found_valid \<and> (found_safe \<longrightarrow> selected = last (debug_valid_path m'))
                        \<and> (\<not> found_safe \<longrightarrow> selected = hd (debug_valid_path m')))
       \<and> (debug_valid_path m' = [] \<longrightarrow> \<not> found_valid)"
  using assms
  by (auto simp: getSafePath_def Let_def split: if_splits prod.splits)

theorem getSafePath_selection_witness:
  "getSafePath road_config road_world (road_module [object_at 40]) [2] 100 default_LaneChangePath
     = ((True, True), candidate 2,
        (road_module [object_at 40])\<lparr>debug_valid_path := [candidate 1, candidate 2]\<rparr>)
   \<and> candidate 2 = last [candidate 1, candidate 2]
   \<and> getSafePath road_config unsafe_world (road_module [object_at 40]) [2] 100
        default_LaneChangePath
     = ((True, False), candidate 1,
        (road_module [object_at 40])\<lparr>debug_valid_path := [candidate 1, candidate 2]\<rparr>)
   \<and> candidate 1 = hd [candidate 1, candidate 2]"
proof -
  have safe: "getSafePath road_config road_world (road_module [object_at 40]) [2] 100
      default_LaneChangePath
     = ((True, True), candidate 2,
        (road_module [object_at 40])\<lparr>debug_valid_path := [candidate 1, candidate 2]\<rparr>)"
    by (simp add: getSafePath_def current_lanes_of_def Let_def road_config_def road_world_def
        road_module_def road_avoidance_data_def road_lane_change_util_def
        road_avoidance_util_def)
  have unsafe: "getSafePath road_config unsafe_world (road_module [object_at 40]) [2] 100
      default_LaneChangePath
     = ((True, False), candidate 1,
        (road_module [object_at 40])\<lparr>debug_valid_path := [candidate 1, candidate 2]\<rparr>)"
    by (simp add: getSafePath_def current_lanes_of_def Let_def road_config_def road_world_def
        unsafe_world_def road_module_def road_avoidance_data_def road_lane_change_util_def
        road_avoidance_util_def)
  have objs: "target_objects (avoidance_data (road_module [object_at 40])) \<noteq> []"
    by (simp add: road_module_def road_avoidance_data_def)
  have lanes: "[2::nat] \<noteq> []" by simp
  from getSafePath_selection[OF safe lanes objs, THEN conjunct2, THEN conjunct1]
  have l: "candidate 2 = last [candidate 1, candidate 2]" by simp
  from getSafePath_selection[OF unsafe lanes objs, THEN conjunct2, THEN conjunct1]
  have h: "candidate 1 = hd [candidate 1, candidate 2]" by simp
  from safe unsafe l h show ?thesis by blast
qed

subsection \<open>C2\<close>

text \<open>
  C2. Whenever \<^verbatim>\<open>updateData\<close> completes, the target objects of the avoidance planning
  data are sorted by non-decreasing longitudinal distance, whatever the avoidance data
  calculation, the registry update and the detection-loss compensation returned.
\<close>

theorem updateData_sorted:
  "updateData c w m = Inr m' \<Longrightarrow> sorted (map longitudinal (target_objects (avoidance_data m')))"
  by (auto simp: updateData_def Let_def sorted_std_sort split: sum.splits prod.splits)

lemma updateData_compensating:
  "\<exists>m'. updateData road_config compensating_world (road_module []) = Inr m'
     \<and> map longitudinal (target_objects (avoidance_data m')) = [3, 12, 40]"
  by (simp add: updateData_def calcAvoidancePlanningData_def fillAvoidanceTargetObjects_def
      current_lanes_of_def getEgoPose_def getEgoPosition_def Let_def road_defs)

theorem updateData_sorted_witness:
  "(\<exists>m'. updateData road_config compensating_world (road_module []) = Inr m'
      \<and> map longitudinal (target_objects (avoidance_data m')) = [3, 12, 40])
   \<and> sorted [3, 12, 40 :: real]"
proof -
  from updateData_compensating obtain m' where
    u: "updateData road_config compensating_world (road_module []) = Inr m'"
    and t: "map longitudinal (target_objects (avoidance_data m')) = [3, 12, 40]" by auto
  from updateData_sorted[OF u] t have "sorted [3, 12, 40 :: real]" by simp
  with u t show ?thesis by auto
qed

subsection \<open>C3\<close>

text \<open>
  C3, as amended. While the module is not RUNNING: if the front target object (the one
  \<^verbatim>\<open>isExecutionRequested\<close> reads, which is the nearest one in the sorted list that
  \<^verbatim>\<open>updateData\<close> leaves) is closer than \<^verbatim>\<open>execute_object_longitudinal_margin\<close>, then
  \<^verbatim>\<open>isExecutionRequested\<close> returns false. Scenario A of the specification is an
  instance: one object at 3 m, a margin of 5 m.
\<close>

theorem margin_blocks_request:
  assumes "current_state m \<noteq> RUNNING" and "target_objects (avoidance_data m) \<noteq> []"
    and "longitudinal (hd (target_objects (avoidance_data m)))
           < execute_object_longitudinal_margin c
         \<or> (sorted (map longitudinal (target_objects (avoidance_data m)))
            \<and> (\<exists>ob\<in>set (target_objects (avoidance_data m)).
                  longitudinal ob < execute_object_longitudinal_margin c))"
  shows "\<exists>m'. isExecutionRequested c w m = Inr (False, m')"
proof -
  from assms(2) obtain a as where objs: "target_objects (avoidance_data m) = a # as"
    by (cases "target_objects (avoidance_data m)") auto
  from assms(3) have "longitudinal a < execute_object_longitudinal_margin c"
    by (auto simp: objs)
  then show ?thesis using front_below_margin[OF assms(1,2), of c w] by (simp add: objs)
qed

theorem margin_blocks_request_witness:
  "isExecutionRequested road_config road_world (road_module [object_at 3])
     = Inr (False, (road_module [object_at 3])\<lparr>debug_valid_path := [candidate 1, candidate 2]\<rparr>)
   \<and> isExecutionRequested road_config road_world (road_module [object_at 40])
     = Inr (True, (road_module [object_at 40])\<lparr>debug_valid_path := [candidate 1, candidate 2]\<rparr>)"
proof -
  have a: "current_state (road_module [object_at 3]) \<noteq> RUNNING"
    and b: "target_objects (avoidance_data (road_module [object_at 3])) \<noteq> []"
    and d: "longitudinal (hd (target_objects (avoidance_data (road_module [object_at 3]))))
           < execute_object_longitudinal_margin road_config"
    by (simp_all add: road_defs)
  have e: "isExecutionRequested road_config road_world (road_module [object_at 3])
     = Inr (False, (road_module [object_at 3])\<lparr>debug_valid_path := [candidate 1, candidate 2]\<rparr>)"
    by (simp add: isExecutionRequested_def getLaneChangeLanes_def getSafePath_def
        current_lanes_of_def Let_def getEgoPose_def getEgoTwist_def road_defs)
  have f: "isExecutionRequested road_config road_world (road_module [object_at 40])
     = Inr (True, (road_module [object_at 40])\<lparr>debug_valid_path := [candidate 1, candidate 2]\<rparr>)"
    by (simp add: isExecutionRequested_def getLaneChangeLanes_def getSafePath_def
        current_lanes_of_def Let_def getEgoPose_def getEgoTwist_def road_defs)
  from margin_blocks_request[OF a b disjI1[OF d], of road_world] e f show ?thesis by simp
qed

text \<open>
  C3 as stated fails while the module is RUNNING: with one target object at 3 m and a
  margin of 5 m, \<^verbatim>\<open>isExecutionRequested\<close> returns true.
\<close>

theorem running_ignores_margin:
  "target_objects (avoidance_data (running_module [object_at 3])) = [object_at 3]
   \<and> longitudinal (object_at 3) = 3
   \<and> execute_object_longitudinal_margin road_config = 5
   \<and> isExecutionRequested road_config road_world (running_module [object_at 3])
       = Inr (True, running_module [object_at 3])"
  by (simp add: isExecutionRequested_def road_defs)

subsection \<open>C4\<close>

text \<open>
  C4. While \<^verbatim>\<open>enable_abort_lane_change\<close> is false: every evaluation of the abort
  condition that returns leaves the sub-state Normal, Cancel or Stop; \<^verbatim>\<open>isAbortState\<close>
  returns false on every module; and no run of member functions from a sub-state other than
  Abort reaches the Abort sub-state.
\<close>

theorem abort_disabled_never_abort:
  assumes "\<not> enable_abort_lane_change c"
  shows "(isAbortConditionSatisfied c w m = Inr (b, m') \<longrightarrow>
            current_lane_change_state m' \<in> {Normal, Cancel, Stop})
       \<and> \<not> isAbortState c m
       \<and> (current_lane_change_state m \<noteq> Abort \<longrightarrow> run c calls m = Inr m'' \<longrightarrow>
            current_lane_change_state m'' \<noteq> Abort)"
  using assms isAbortConditionSatisfied_disabled[of c w m b m'] run_disabled[of c m calls m'']
  by (auto simp: isAbortState_def)

lemma stop_when_abort_disabled:
  "isAbortConditionSatisfied no_abort_config road_world (running_module [object_at 40])
     = Inr (False, (running_module [object_at 40])\<lparr>current_lane_change_state := Stop\<rparr>)"
  by (simp add: isAbortConditionSatisfied_def isApprovedPathSafe_def Let_def getEgoPose_def
      getEgoTwist_def road_defs)

lemma updateState_when_abort_disabled:
  "run no_abort_config [(road_world, UpdateState)] (running_module [object_at 40])
     = Inr ((running_module [object_at 40])\<lparr>current_lane_change_state := Stop\<rparr>)"
  by (simp add: updateState_def updateState_abort_and_finish_def return_state_def
      isValidPath_def isWaitingApproval_def isAbortState_def hasFinishedLaneChange_def
      phase_sum_def
      isAbortConditionSatisfied_def isApprovedPathSafe_def Let_def getEgoPose_def
      getEgoTwist_def road_defs)

theorem abort_disabled_never_abort_witness:
  "isAbortConditionSatisfied no_abort_config road_world (running_module [object_at 40])
     = Inr (False, (running_module [object_at 40])\<lparr>current_lane_change_state := Stop\<rparr>)
   \<and> \<not> isAbortState no_abort_config aborting_module
   \<and> run no_abort_config [(road_world, UpdateState)] (running_module [object_at 40])
     = Inr ((running_module [object_at 40])\<lparr>current_lane_change_state := Stop\<rparr>)"
proof -
  have d: "\<not> enable_abort_lane_change no_abort_config"
    by (simp add: no_abort_config_def road_config_def)
  from abort_disabled_never_abort[OF d, of road_world aborting_module]
  have "\<not> isAbortState no_abort_config aborting_module" by simp
  with stop_when_abort_disabled updateState_when_abort_disabled show ?thesis by simp
qed

subsection \<open>C5\<close>

text \<open>
  C5. \<^verbatim>\<open>isAbortState\<close> returns true only when the abort path pointer is set; no run of
  member functions, from any module, ends in the dereference of a null pointer (the abort
  path is read in \<^verbatim>\<open>plan\<close>, \<^verbatim>\<open>planCandidate\<close> and \<^verbatim>\<open>resetPathIfAbort\<close> only behind
  \<^verbatim>\<open>isAbortState\<close>); and in every state reached from a reset module, the Abort
  sub-state comes with an abort path.
\<close>

theorem abort_state_has_abort_path:
  "(isAbortState c m \<longrightarrow> abort_path m \<noteq> None)
   \<and> run c calls m \<noteq> Inl NullPointer
   \<and> (run c calls (resetParameters m) = Inr m' \<longrightarrow> current_lane_change_state m' = Abort
        \<longrightarrow> abort_path m' \<noteq> None)"
  using run_invariant[OF resetParameters_invariant, of c calls m m'] run_no_null[of c calls m]
  by (auto simp: isAbortState_def abort_path_invariant_def)

lemma reset_running: "resetParameters (running_module [object_at 40]) = running_module [object_at 40]"
  by (simp add: resetParameters_def resetPathReference_def resetPathCandidate_def road_defs)

lemma enter_abort:
  "run road_config [(road_world, UpdateState)] (running_module [object_at 40])
     = Inr aborting_module"
  by (simp add: updateState_def updateState_abort_and_finish_def return_state_def
      isValidPath_def isWaitingApproval_def isAbortState_def hasFinishedLaneChange_def
      phase_sum_def isNearEndOfLane_def isCurrentVelocityLow_def
      isAbortConditionSatisfied_def isApprovedPathSafe_def Let_def getEgoPose_def
      getEgoTwist_def road_defs)

theorem abort_state_has_abort_path_witness:
  "run road_config [(road_world, UpdateState)] (resetParameters (running_module [object_at 40]))
     = Inr aborting_module
   \<and> current_lane_change_state aborting_module = Abort
   \<and> abort_path aborting_module = Some (candidate 3)
   \<and> isAbortState road_config aborting_module"
proof -
  have r: "run road_config [(road_world, UpdateState)]
      (resetParameters (running_module [object_at 40])) = Inr aborting_module"
    by (simp only: reset_running enter_abort)
  have s: "current_lane_change_state aborting_module = Abort"
    and p: "abort_path aborting_module = Some (candidate 3)"
    and i: "isAbortState road_config aborting_module"
    by (simp_all add: isAbortState_def road_defs)
  from abort_state_has_abort_path[of road_config "running_module [object_at 40]"
      "[(road_world, UpdateState)]" aborting_module] r s
  have "abort_path aborting_module \<noteq> None" by simp
  with r s p i show ?thesis by simp
qed

subsection \<open>C6\<close>

lemmas plan_eval = plan_def plan_valid_def plan_publish_def isValidPath_of_def
  expanded_drivable_lanelets_def resetPathIfAbort_def generateExtendedDrivableArea_def
  updateOutputTurnSignal_def updateSteeringFactorPtr_def isAbortState_def isNearEndOfLane_def
  isCurrentVelocityLow_def getEgoPose_def getEgoTwist_def Let_def

text \<open>
  C6 does not hold of the code in the call of \<^verbatim>\<open>plan\<close> that enters the Abort sub-state.
  With the approval of the forward lane change still active, \<^verbatim>\<open>plan\<close> reads
  \<^verbatim>\<open>is_activated_\<close> as true, then removes the registration and marks the abort path
  requested and not approved, and publishes the abort path in the same call: the abort
  path is output before any approval of it. In the old architecture, with an abort path of
  lateral shift 0, the same call moreover removes no registration and generates no
  identifier, the module's identifiers staying 1 and 2.
\<close>

theorem abort_path_published_before_fresh_approval:
  "isAbortState road_config aborting_module
   \<and> \<not> is_abort_approval_requested aborting_module
   \<and> \<not> is_abort_path_approved aborting_module
   \<and> isActivated (planner_data road_world)
   \<and> map_sum id (\<lambda>(out, m'). (out_path out, is_abort_approval_requested m',
                               is_abort_path_approved m', interface_calls m'))
        (plan road_config road_world aborting_module)
      = Inr (Some (path (candidate 3)), True, False,
             [RemoveRTCStatus, WaitApprovalLeft 30 30,
              UpdateSteeringFactor (default_Pose, default_Pose) (30, 30) SF_LEFT TURNING])
   \<and> getLateralShift (lane_change_util road_world) (candidate 3) = 0
   \<and> map_sum id (\<lambda>(out, m'). (out_path out, is_abort_approval_requested m',
                               is_abort_path_approved m', interface_calls m',
                               uuid_map m' ''left'', uuid_map m' ''right''))
        (plan old_architecture_config road_world aborting_module)
      = Inr (Some (path (candidate 3)), True, False,
             [WaitApprovalLeft 30 30,
              UpdateSteeringFactor (default_Pose, default_Pose) (30, 30) SF_LEFT TURNING],
             Some 1, Some 2)"
  by (simp add: plan_eval base_defs road_defs)

text \<open>Without the activation the same call publishes the lane change path.\<close>

lemma lane_change_path_published_without_activation:
  "map_sum id (\<lambda>(out, m'). (out_path out, is_abort_path_approved m'))
     (plan road_config inactive_world aborting_module)
   = Inr (Some (path (candidate 2)), False)"
  by (simp add: plan_eval base_defs road_defs)

subsection \<open>C7\<close>

text \<open>
  C7, as amended. A path with a point outside every expanded drivable lanelet, or one that
  fails the relative angle check against \<open>pi\<close>, is not valid. When it is the lane change
  path of the status (the forward path, the one \<^verbatim>\<open>plan\<close> passes to the check),
  \<^verbatim>\<open>plan\<close> returns the empty output (no path) and marks the status invalid; from then
  on, until \<^verbatim>\<open>plan\<close> runs again, every state update sets and returns SUCCESS, a
  terminal status, instead of RUNNING.
\<close>

theorem invalid_path_rejected:
  assumes "(\<exists>pt\<in>set (points p). \<forall>l\<in>set (expanded_drivable_lanelets c w m).
              \<not> isInLanelet (lanelet_util w) (pose pt) l)
           \<or> \<not> checkPathRelativeAngle (path_util w) p pi"
  shows "\<not> isValidPath_of c w m p
     \<and> (path (lane_change_path (status m)) = p \<longrightarrow>
         (\<exists>m'. plan c w m = Inr (default_BehaviorModuleOutput, m')
            \<and> out_path default_BehaviorModuleOutput = None
            \<and> \<not> isValidPath m'
            \<and> (\<forall>c' w' calls m''. Plan \<notin> snd ` set calls \<longrightarrow> run c' calls m' = Inr m''
                 \<longrightarrow> updateState c' w' m'' = Inr (SUCCESS, m''\<lparr>current_state := SUCCESS\<rparr>))))"
proof (intro conjI impI)
  from assms show inv: "\<not> isValidPath_of c w m p"
    by (auto simp: isValidPath_of_iff)
  assume p: "path (lane_change_path (status m)) = p"
  let ?m' = "((resetPathReference (resetPathCandidate m))
             \<lparr>is_activated := isActivated (planner_data w)\<rparr>)
             \<lparr>status := (status m)\<lparr>is_valid_path := False\<rparr>\<rparr>"
  from inv p have pl: "plan c w m = Inr (default_BehaviorModuleOutput, ?m')"
    by (simp add: plan_invalid)
  have v: "\<not> is_valid_path (status ?m')" by simp
  have e: "out_path default_BehaviorModuleOutput = None"
    by (simp add: default_BehaviorModuleOutput_def)
  have u: "updateState c' w' m'' = Inr (SUCCESS, m''\<lparr>current_state := SUCCESS\<rparr>)"
    if "Plan \<notin> snd ` set calls" "run c' calls ?m' = Inr m''" for c' w' calls m''
  proof -
    from run_keeps_validity[OF that] v have "\<not> is_valid_path (status m'')" by simp
    then show ?thesis by (rule updateState_invalid)
  qed
  show "\<exists>m'. plan c w m = Inr (default_BehaviorModuleOutput, m')
            \<and> out_path default_BehaviorModuleOutput = None
            \<and> \<not> isValidPath m'
            \<and> (\<forall>c' w' calls m''. Plan \<notin> snd ` set calls \<longrightarrow> run c' calls m' = Inr m''
                 \<longrightarrow> updateState c' w' m'' = Inr (SUCCESS, m''\<lparr>current_state := SUCCESS\<rparr>))"
  proof (intro exI[of _ ?m'] conjI allI impI)
    show "plan c w m = Inr (default_BehaviorModuleOutput, ?m')" by (rule pl)
    show "out_path default_BehaviorModuleOutput = None" by (rule e)
    show "\<not> isValidPath ?m'" using v by (simp only: isValidPath_def not_False_eq_True)
    show "updateState c' w' m'' = Inr (SUCCESS, m''\<lparr>current_state := SUCCESS\<rparr>)"
      if "Plan \<notin> snd ` set calls" "run c' calls ?m' = Inr m''" for c' w' calls m''
      using that by (rule u)
  qed
qed

lemma outside_invalid:
  "\<exists>pt\<in>set (points (path (candidate 2))).
     \<forall>l\<in>set (expanded_drivable_lanelets road_config outside_world (running_module [object_at 40])).
       \<not> isInLanelet (lanelet_util outside_world) (pose pt) l"
  by (auto simp: road_defs)

lemma outside_committed:
  "path (lane_change_path (status (running_module [object_at 40]))) = path (candidate 2)"
  by (simp add: road_defs)

theorem invalid_path_rejected_witness:
  "\<not> isValidPath_of road_config outside_world (running_module [object_at 40]) (path (candidate 2))
   \<and> (\<exists>m'. plan road_config outside_world (running_module [object_at 40])
              = Inr (default_BehaviorModuleOutput, m')
          \<and> updateState road_config road_world m' = Inr (SUCCESS, m'\<lparr>current_state := SUCCESS\<rparr>))"
proof -
  note rejected = invalid_path_rejected[OF disjI1[OF outside_invalid]]
  from rejected have inv:
    "\<not> isValidPath_of road_config outside_world (running_module [object_at 40])
        (path (candidate 2))"
    by (rule conjunct1)
  from rejected[THEN conjunct2, THEN mp, OF outside_committed]
  obtain m' where pl: "plan road_config outside_world (running_module [object_at 40])
              = Inr (default_BehaviorModuleOutput, m')"
    and all: "\<forall>c' w' calls m''. Plan \<notin> snd ` set calls \<longrightarrow> run c' calls m' = Inr m''
                 \<longrightarrow> updateState c' w' m'' = Inr (SUCCESS, m''\<lparr>current_state := SUCCESS\<rparr>)"
    by (elim exE conjE)
  from all[rule_format, of "[]" road_config m' road_world]
  have "updateState road_config road_world m' = Inr (SUCCESS, m'\<lparr>current_state := SUCCESS\<rparr>)"
    by simp
  with inv pl show ?thesis by (intro conjI exI[of _ m'])
qed

text \<open>
  C7 as stated fails for the other path \<^verbatim>\<open>plan\<close> commits to its output, the abort path:
  it is not passed to the validity check. In the Abort sub-state with the abort approved,
  an abort path with a point outside every drivable lanelet is published, the status is
  marked valid, and the next state update returns RUNNING.
\<close>

theorem invalid_abort_path_published:
  "\<not> isValidPath_of road_config bounded_world approved_abort_module (path outside_abort_path)
   \<and> isValidPath_of road_config bounded_world approved_abort_module
        (path (lane_change_path (status approved_abort_module)))
   \<and> map_sum id (\<lambda>(out, m'). (out_path out, is_valid_path (status m'),
                               is_abort_path_approved m'))
        (plan road_config bounded_world approved_abort_module)
      = Inr (Some (path outside_abort_path), True, True)
   \<and> (case plan road_config bounded_world approved_abort_module of
         Inl e \<Rightarrow> Inl e
       | Inr (out, m') \<Rightarrow> map_sum id fst (updateState road_config bounded_world m'))
      = Inr RUNNING"
  by (simp add: plan_eval updateState_def updateState_abort_and_finish_def return_state_def
      isValidPath_def base_defs road_defs)

subsection \<open>C8\<close>

text \<open>
  C8, as amended. In a state update with a valid path status while waiting for approval:
  a target object count below \<^verbatim>\<open>execute_object_num\<close> sets the status SUCCESS; with enough
  objects, a front object closer than \<^verbatim>\<open>execute_object_longitudinal_margin\<close> sets
  FAILURE; and with the front object beyond the margin, when
  \<^verbatim>\<open>execute_only_when_lane_change_finish_before_object\<close> is set, a lane change end that
  is not closer than the front object sets FAILURE.
\<close>

theorem updateState_waiting_approval_checks:
  assumes "isValidPath m" and "isWaitingApproval m"
  shows "(length (target_objects (avoidance_data m)) < execute_object_num c \<longrightarrow>
            updateState c w m = Inr (SUCCESS, m\<lparr>current_state := SUCCESS\<rparr>))
       \<and> (execute_object_num c \<le> length (target_objects (avoidance_data m))
            \<and> target_objects (avoidance_data m) \<noteq> []
            \<and> longitudinal (hd (target_objects (avoidance_data m)))
                < execute_object_longitudinal_margin c \<longrightarrow>
            updateState c w m = Inr (FAILURE, m\<lparr>current_state := FAILURE\<rparr>))
       \<and> (execute_object_num c \<le> length (target_objects (avoidance_data m))
            \<and> target_objects (avoidance_data m) \<noteq> []
            \<and> execute_object_longitudinal_margin c
                \<le> longitudinal (hd (target_objects (avoidance_data m)))
            \<and> execute_only_when_lane_change_finish_before_object c
            \<and> longitudinal (hd (target_objects (avoidance_data m)))
                \<le> calcSignedArcLength (path_util w)
                     (points (path (lane_change_path (status m))))
                     (position (getEgoPose w))
                     (position (shift_end (shift_line (lane_change_path (status m))))) \<longrightarrow>
            updateState c w m = Inr (FAILURE, m\<lparr>current_state := FAILURE\<rparr>))"
proof (intro conjI impI)
  assume "length (target_objects (avoidance_data m)) < execute_object_num c"
  with assms show "updateState c w m = Inr (SUCCESS, m\<lparr>current_state := SUCCESS\<rparr>)"
    by (simp add: updateState_def return_state_def)
next
  assume "execute_object_num c \<le> length (target_objects (avoidance_data m))
            \<and> target_objects (avoidance_data m) \<noteq> []
            \<and> longitudinal (hd (target_objects (avoidance_data m)))
                < execute_object_longitudinal_margin c"
  with assms show "updateState c w m = Inr (FAILURE, m\<lparr>current_state := FAILURE\<rparr>)"
    by (simp add: updateState_def return_state_def)
next
  assume "execute_object_num c \<le> length (target_objects (avoidance_data m))
            \<and> target_objects (avoidance_data m) \<noteq> []
            \<and> execute_object_longitudinal_margin c
                \<le> longitudinal (hd (target_objects (avoidance_data m)))
            \<and> execute_only_when_lane_change_finish_before_object c
            \<and> longitudinal (hd (target_objects (avoidance_data m)))
                \<le> calcSignedArcLength (path_util w)
                     (points (path (lane_change_path (status m))))
                     (position (getEgoPose w))
                     (position (shift_end (shift_line (lane_change_path (status m)))))"
  with assms show "updateState c w m = Inr (FAILURE, m\<lparr>current_state := FAILURE\<rparr>)"
    by (simp add: updateState_def return_state_def Let_def not_less)
qed

lemma waiting_facts:
  "isValidPath (road_module objs)" "isWaitingApproval (road_module objs)"
  by (simp_all add: isValidPath_def isWaitingApproval_def road_defs)

theorem updateState_waiting_approval_checks_witness:
  "updateState road_config road_world (road_module [])
     = Inr (SUCCESS, (road_module [])\<lparr>current_state := SUCCESS\<rparr>)
   \<and> updateState road_config road_world (road_module [object_at 3])
     = Inr (FAILURE, (road_module [object_at 3])\<lparr>current_state := FAILURE\<rparr>)
   \<and> updateState road_config road_world (road_module [object_at 20])
     = Inr (FAILURE, (road_module [object_at 20])\<lparr>current_state := FAILURE\<rparr>)"
proof -
  have a: "length (target_objects (avoidance_data (road_module []))) < execute_object_num road_config"
    by (simp add: road_defs)
  have b: "execute_object_num road_config \<le> length (target_objects (avoidance_data (road_module [object_at 3])))
            \<and> target_objects (avoidance_data (road_module [object_at 3])) \<noteq> []
            \<and> longitudinal (hd (target_objects (avoidance_data (road_module [object_at 3]))))
                < execute_object_longitudinal_margin road_config"
    by (simp add: road_defs)
  have d: "execute_object_num road_config \<le> length (target_objects (avoidance_data (road_module [object_at 20])))
            \<and> target_objects (avoidance_data (road_module [object_at 20])) \<noteq> []
            \<and> execute_object_longitudinal_margin road_config
                \<le> longitudinal (hd (target_objects (avoidance_data (road_module [object_at 20]))))
            \<and> execute_only_when_lane_change_finish_before_object road_config
            \<and> longitudinal (hd (target_objects (avoidance_data (road_module [object_at 20]))))
                \<le> calcSignedArcLength (path_util road_world)
                     (points (path (lane_change_path (status (road_module [object_at 20])))))
                     (position (getEgoPose road_world))
                     (position (shift_end (shift_line (lane_change_path (status (road_module [object_at 20]))))))"
    by (simp add: road_defs)
  note checks = updateState_waiting_approval_checks[OF waiting_facts, of _ road_config road_world]
  from checks[of "[]", THEN conjunct1, THEN mp, OF a]
    checks[of "[object_at 3]", THEN conjunct2, THEN conjunct1, THEN mp, OF b]
    checks[of "[object_at 20]", THEN conjunct2, THEN conjunct2, THEN mp, OF d]
  show ?thesis by (intro conjI)
qed

text \<open>
  C8 as stated fails on the object count: waiting for approval with no target object and
  \<^verbatim>\<open>execute_object_num = 1\<close>, the state update sets SUCCESS, not FAILURE.
\<close>

theorem too_few_objects_succeeds:
  "isValidPath (road_module []) \<and> isWaitingApproval (road_module [])
   \<and> length (target_objects (avoidance_data (road_module []))) = 0
   \<and> execute_object_num road_config = 1
   \<and> updateState road_config road_world (road_module [])
       = Inr (SUCCESS, (road_module [])\<lparr>current_state := SUCCESS\<rparr>)"
  by (simp add: updateState_def return_state_def isValidPath_def isWaitingApproval_def road_defs)

subsection \<open>C9\<close>

text \<open>
  C9. \<^verbatim>\<open>getLaneChangeLanes\<close> returns the empty lane sequence whenever the current lane
  sequence is empty or the number of target objects is strictly below
  \<^verbatim>\<open>execute_object_num\<close>; so it never returns a non-empty sequence below the threshold.
\<close>

theorem getLaneChangeLanes_empty:
  "current_lanes_arg = [] \<or> length (target_objects (avoidance_data m)) < execute_object_num c
   \<Longrightarrow> getLaneChangeLanes c w m current_lanes_arg l = Inr []"
  by (auto simp: getLaneChangeLanes_def Let_def)

theorem getLaneChangeLanes_empty_witness:
  "getLaneChangeLanes road_config road_world (road_module []) [1] 200 = Inr []
   \<and> getLaneChangeLanes road_config road_world (road_module [object_at 40]) [] 200 = Inr []
   \<and> getLaneChangeLanes road_config road_world (road_module [object_at 40]) [1] 200 = Inr [2]"
proof -
  have a: "[1::nat] = [] \<or> length (target_objects (avoidance_data (road_module []))) < execute_object_num road_config"
    by (simp add: road_module_def road_avoidance_data_def road_config_def)
  have b: "getLaneChangeLanes road_config road_world (road_module [object_at 40]) [1] 200 = Inr [2]"
    by (simp add: getLaneChangeLanes_def Let_def getEgoPose_def getEgoTwist_def road_defs)
  from getLaneChangeLanes_empty[OF a, of road_world 200]
    getLaneChangeLanes_empty[of "[]" "road_module [object_at 40]" road_config road_world 200] b
  show ?thesis by simp
qed

subsection \<open>C10\<close>

text \<open>
  C10. While the status is RUNNING, \<^verbatim>\<open>isExecutionRequested\<close> and
  \<^verbatim>\<open>isExecutionReady\<close> return true whatever the configuration, the world and the rest
  of the module are, without a fault and without touching the module: no gate (lanes,
  candidates, object count, margin, finish before object, safety) is evaluated.
\<close>

theorem running_bypasses_gates:
  "current_state m = RUNNING \<Longrightarrow>
     isExecutionRequested c w m = Inr (True, m) \<and> isExecutionReady c w m = Inr (True, m)"
  by (simp add: isExecutionRequested_def isExecutionReady_def)

theorem running_bypasses_gates_witness:
  "isExecutionRequested road_config unsafe_world (running_module [])
     = Inr (True, running_module [])
   \<and> isExecutionReady road_config unsafe_world (running_module [])
     = Inr (True, running_module [])
   \<and> isExecutionRequested road_config unsafe_world (road_module [])
     = Inr (False, road_module [])
   \<and> isExecutionReady road_config unsafe_world (road_module [object_at 40])
     = Inr (False, (road_module [object_at 40])\<lparr>debug_valid_path := [candidate 1, candidate 2]\<rparr>)"
proof -
  have r: "current_state (running_module []) = RUNNING"
    by (simp add: running_module_def)
  have a: "isExecutionRequested road_config unsafe_world (road_module [])
     = Inr (False, road_module [])"
    by (simp add: isExecutionRequested_def getLaneChangeLanes_def getSafePath_def
        current_lanes_of_def Let_def unsafe_world_def road_defs)
  have b: "isExecutionReady road_config unsafe_world (road_module [object_at 40])
     = Inr (False, (road_module [object_at 40])\<lparr>debug_valid_path := [candidate 1, candidate 2]\<rparr>)"
    by (simp add: isExecutionReady_def getLaneChangeLanes_def getSafePath_def
        current_lanes_of_def Let_def unsafe_world_def getEgoPose_def getEgoTwist_def road_defs)
  from running_bypasses_gates[OF r, of road_config unsafe_world] a b show ?thesis by simp
qed

end
